theory Spec2Isabelle
  imports Complex_Main "HOL-Library.Char_ord" "HOL-Library.List_Lexorder"
begin

section \<open>Values shared with the libraries\<close>

text \<open>
  The client (package \<open>client\<close>, file \<open>client.go\<close> and the model file that follows it)
  is written against four libraries: \<open>net/url\<close>, \<open>net/http\<close>, \<open>strconv\<close>/\<open>fmt\<close> of the Go
  standard library, \<open>json-iterator\<close> and \<open>go-funk\<close>. None of them is part of the
  repository. The pure helpers the client relies on (query encoding and decoding,
  \<open>Atoi\<close>, \<open>%d\<close>, \<open>funk.IsEmpty\<close>) are modelled below after their documented behaviour;
  URL parsing, the HTTP round trip and the JSON codec are parameters of every operation
  (record \<open>env\<close>).
\<close>

type_synonym bytes = string

text \<open>A value decoded from JSON into Go's \<open>any\<close>: \<open>nil\<close>, \<open>bool\<close>, \<open>float64\<close> (every finite
  \<open>float64\<close> is a rational), \<open>string\<close>, \<open>[]any\<close>, \<open>map[string]any\<close>.\<close>

datatype any = AnyNil | AnyBool bool | AnyNumber rat | AnyString string
  | AnySlice "any list" | AnyMap "(string \<times> any) list"

text \<open>Errors produced by library calls: a \<open>*strconv.NumError\<close> of \<open>Atoi\<close> (with the
  offending input), a \<open>url.EscapeError\<close>, or any other library error, by its message.\<close>

datatype lib_error = ErrSyntax string | ErrRange string | EscapeError string
  | LibError string

text \<open>An \<open>error\<close> of the client is either the value of \<open>fmt.Errorf(format, operands)\<close>, kept
  as the format with its operands, or a library error handed on unchanged. The operand of
  \<open>%v\<close> is an \<open>error\<close> variable (possibly \<open>nil\<close>), a string or an \<open>any\<close>.\<close>

datatype operand = OpString string | OpError "lib_error option" | OpAny any

datatype error = Errorf string "operand list" | Returned lib_error

subsection \<open>go-funk: \<open>IsEmpty\<close> and \<open>NotEmpty\<close>\<close>

text \<open>\<open>funk.IsEmpty\<close> holds for \<open>nil\<close>, \<open>""\<close>, \<open>false\<close>, a numeric zero and a slice or map of
  length 0. The client calls it on strings and on the decoded \<open>errors\<close> field.\<close>

definition IsEmpty :: "string \<Rightarrow> bool" where
  "IsEmpty s = (s = [])"

definition NotEmpty :: "string \<Rightarrow> bool" where
  "NotEmpty s = (\<not> IsEmpty s)"

fun IsEmptyAny :: "any \<Rightarrow> bool" where
  "IsEmptyAny AnyNil = True"
| "IsEmptyAny (AnyBool b) = (\<not> b)"
| "IsEmptyAny (AnyNumber x) = (x = 0)"
| "IsEmptyAny (AnyString s) = (s = [])"
| "IsEmptyAny (AnySlice xs) = (xs = [])"
| "IsEmptyAny (AnyMap kvs) = (kvs = [])"

definition NotEmptyAny :: "any \<Rightarrow> bool" where
  "NotEmptyAny v = (\<not> IsEmptyAny v)"

subsection \<open>fmt and strconv: decimal integers\<close>

text \<open>Go's \<open>int\<close> is taken at 64 bits.\<close>

definition MaxInt :: int where
  "MaxInt = 2 ^ 63 - 1"

definition MinInt :: int where
  "MinInt = - (2 ^ 63)"

fun digits :: "nat \<Rightarrow> string" where
  "digits n = (if n < 10 then [''0123456789'' ! n]
     else digits (n div 10) @ [''0123456789'' ! (n mod 10)])"

declare digits.simps [simp del]

text \<open>\<open>fmt.Sprintf("%d", i)\<close>.\<close>

definition itoa :: "int \<Rightarrow> string" where
  "itoa i = (if i < 0 then CHR ''-'' # digits (nat (- i)) else digits (nat i))"

abbreviation between :: "char \<Rightarrow> char \<Rightarrow> char \<Rightarrow> bool" where
  "between lo hi c \<equiv> lo \<le> c \<and> c \<le> hi"

definition isDigit :: "char \<Rightarrow> bool" where
  "isDigit c = between CHR ''0'' CHR ''9'' c"

datatype num_err = Syntax | Range

text \<open>\<open>strconv.ParseUint(s, 10, 64)\<close> from an accumulator: the first character that is
  not a decimal digit is a syntax error, the first step that leaves 64 bits a range
  error.\<close>

fun ParseUint :: "nat \<Rightarrow> string \<Rightarrow> num_err + nat" where
  "ParseUint n [] = Inr n"
| "ParseUint n (c # cs) =
     (if \<not> isDigit c then Inl Syntax
      else let n1 = n * 10 + (of_char c - 48) in
        if 2 ^ 64 \<le> n1 then Inl Range else ParseUint n1 cs)"

text \<open>\<open>strconv.ParseInt(s, 10, 0)\<close>: an optional sign, then at least one digit; the value
  has to fit a signed 64-bit integer.\<close>

definition ParseInt :: "string \<Rightarrow> num_err + int" where
  "ParseInt s =
     (if s = [] then Inl Syntax
      else let neg = (hd s = CHR ''-'');
               s1 = (if hd s = CHR ''+'' \<or> hd s = CHR ''-'' then tl s else s)
        in if s1 = [] then Inl Syntax
           else case ParseUint 0 s1 of
               Inl e \<Rightarrow> Inl e
             | Inr un \<Rightarrow>
                 if \<not> neg \<and> 2 ^ 63 \<le> un then Inl Range
                 else if neg \<and> 2 ^ 63 < un then Inl Range
                 else Inr (if neg then - int un else int un))"

text \<open>\<open>strconv.Atoi\<close>. Its fast path for short inputs computes the same value as
  \<open>ParseInt(s, 10, 0)\<close>; the error is a \<open>NumError\<close> carrying the input.\<close>

definition Atoi :: "string \<Rightarrow> lib_error + int" where
  "Atoi s = (case ParseInt s of
       Inl Syntax \<Rightarrow> Inl (ErrSyntax s)
     | Inl Range \<Rightarrow> Inl (ErrRange s)
     | Inr i \<Rightarrow> Inr i)"

subsection \<open>net/url: query values\<close>

text \<open>\<open>url.Values\<close> is a \<open>map[string][]string\<close>; the association list keeps one entry per
  key.\<close>

type_synonym Values = "(string \<times> string list) list"

fun Add :: "Values \<Rightarrow> string \<Rightarrow> string \<Rightarrow> Values" where
  "Add [] key v = [(key, [v])]"
| "Add ((k, vs) # rest) key v =
     (if k = key then (k, vs @ [v]) # rest else (k, vs) # Add rest key v)"

fun Get :: "Values \<Rightarrow> string \<Rightarrow> string" where
  "Get [] key = []"
| "Get ((k, vs) # rest) key =
     (if k = key then (case vs of [] \<Rightarrow> [] | v # _ \<Rightarrow> v) else Get rest key)"

definition Has :: "Values \<Rightarrow> string \<Rightarrow> bool" where
  "Has vals key = (key \<in> fst ` set vals)"

fun lookup :: "Values \<Rightarrow> string \<Rightarrow> string list" where
  "lookup [] key = []"
| "lookup ((k, vs) # rest) key = (if k = key then vs else lookup rest key)"

definition isAlnum :: "char \<Rightarrow> bool" where
  "isAlnum c = (between CHR ''a'' CHR ''z'' c \<or> between CHR ''A'' CHR ''Z'' c
     \<or> between CHR ''0'' CHR ''9'' c)"

text \<open>\<open>shouldEscape(c, encodeQueryComponent)\<close>: everything but the unreserved characters.\<close>

definition shouldEscape :: "char \<Rightarrow> bool" where
  "shouldEscape c = (\<not> (isAlnum c \<or> c \<in> set ''-_.~''))"

definition hexByte :: "char \<Rightarrow> string" where
  "hexByte c = [CHR ''%'', ''0123456789ABCDEF'' ! (of_char c div 16),
     ''0123456789ABCDEF'' ! (of_char c mod 16)]"

fun QueryEscape :: "string \<Rightarrow> string" where
  "QueryEscape [] = []"
| "QueryEscape (c # cs) =
     (if c = CHR '' '' then CHR ''+'' # QueryEscape cs
      else if shouldEscape c then hexByte c @ QueryEscape cs
      else c # QueryEscape cs)"

fun join :: "string \<Rightarrow> string list \<Rightarrow> string" where
  "join sep [] = []"
| "join sep [x] = x"
| "join sep (x # y # ys) = x @ sep @ join sep (y # ys)"

text \<open>\<open>Values.Encode\<close>: \<open>key=value\<close> pairs, both escaped, sorted by key, joined by \<open>&\<close>.\<close>

definition Encode :: "Values \<Rightarrow> string" where
  "Encode vals = join ''&''
     (concat (map (\<lambda>k. map (\<lambda>v. QueryEscape k @ ''='' @ QueryEscape v) (lookup vals k))
        (sort (map fst vals))))"

definition ishex :: "char \<Rightarrow> bool" where
  "ishex c = (between CHR ''0'' CHR ''9'' c \<or> between CHR ''a'' CHR ''f'' c
     \<or> between CHR ''A'' CHR ''F'' c)"

definition unhex :: "char \<Rightarrow> nat" where
  "unhex c = (if between CHR ''0'' CHR ''9'' c then of_char c - 48
     else if between CHR ''a'' CHR ''f'' c then of_char c - 97 + 10
     else if between CHR ''A'' CHR ''F'' c then of_char c - 65 + 10
     else 0)"

text \<open>\<open>url.QueryUnescape\<close>: \<open>%XX\<close> is one byte, \<open>+\<close> a space; a \<open>%\<close> that is not followed by
  two hexadecimal digits is an \<open>EscapeError\<close>.\<close>

fun QueryUnescape :: "string \<Rightarrow> lib_error + string" where
  "QueryUnescape [] = Inr []"
| "QueryUnescape (c # cs) =
     (if c = CHR ''%'' then
        (case cs of
           a # b # rest \<Rightarrow>
             if ishex a \<and> ishex b then
               (case QueryUnescape rest of
                  Inl e \<Rightarrow> Inl e
                | Inr t \<Rightarrow> Inr (char_of (unhex a * 16 + unhex b) # t))
             else Inl (EscapeError (take 3 (c # cs)))
         | _ \<Rightarrow> Inl (EscapeError (take 3 (c # cs))))
      else
        (case QueryUnescape cs of
           Inl e \<Rightarrow> Inl e
         | Inr t \<Rightarrow> Inr ((if c = CHR ''+'' then CHR '' '' else c) # t)))"

text \<open>\<open>strings.Cut\<close> at a one-byte separator and \<open>strings.Split\<close>.\<close>

definition Cut :: "string \<Rightarrow> char \<Rightarrow> string \<times> string \<times> bool" where
  "Cut s sep = (takeWhile (\<lambda>c. c \<noteq> sep) s, tl (dropWhile (\<lambda>c. c \<noteq> sep) s), sep \<in> set s)"

fun Split :: "string \<Rightarrow> char \<Rightarrow> string list" where
  "Split [] sep = [[]]"
| "Split (c # cs) sep =
     (if c = sep then [] # Split cs sep
      else (case Split cs sep of [] \<Rightarrow> [[c]] | p # ps \<Rightarrow> (c # p) # ps))"

text \<open>One round of the loop of \<open>parseQuery\<close> (Go 1.17 and later): a piece with a
  semicolon, an empty piece and a piece whose key or value does not unescape are
  skipped.\<close>

definition parsePair :: "Values \<Rightarrow> string \<Rightarrow> Values" where
  "parsePair m piece =
     (if CHR '';'' \<in> set piece then m
      else if piece = [] then m
      else let (key, v, found) = Cut piece CHR ''='' in
        case QueryUnescape key of
          Inl e \<Rightarrow> m
        | Inr key1 \<Rightarrow>
            (case QueryUnescape v of
               Inl e \<Rightarrow> m
             | Inr v1 \<Rightarrow> Add m key1 v1))"

text \<open>\<open>URL.Query()\<close> is \<open>ParseQuery(u.RawQuery)\<close> with the error dropped.\<close>

definition ParseQuery :: "string \<Rightarrow> Values" where
  "ParseQuery query = foldl parsePair [] (Split query CHR ''&'')"

record URL =
  Scheme :: string
  Opaque :: string
  Host :: string
  Path :: string
  RawQuery :: string
  Fragment :: string

definition Query :: "URL \<Rightarrow> Values" where
  "Query u = ParseQuery (RawQuery u)"

section \<open>Envelope model\<close>

text \<open>The structs of the model file. The wrappers are generic in the attributes; the client
  has operations for \<open>Monitor\<close> only, so \<open>MonitorGroup\<close> is not needed below.\<close>

record RequestHeader =
  ID :: string
  Name :: string
  Value :: string

record Monitor =
  ID :: string
  TeamName :: string
  MonitorType :: string
  URL :: string
  PronounceableName :: string
  Email :: bool
  SMS :: bool
  Call :: bool
  Push :: bool
  CheckFrequency :: int
  RequestHeaders :: "RequestHeader list"
  ExpectedStatusCodes :: "int list"
  DomainExpiration :: int
  SSLExpiration :: int
  PolicyID :: string
  FollowRedirects :: bool
  RequiredKeyword :: string
  TeamWait :: int
  Paused :: bool
  Port :: int
  Regions :: "string list"
  MonitorGroupID :: any
  RecoveryPeriod :: int
  VerifySSL :: bool
  ConfirmationPeriod :: int
  HTTPMethod :: string
  RequestTimeout :: int
  RequestMethod :: string
  AuthUsername :: string
  AuthPassword :: string
  MaintenanceDays :: "string list"
  MaintenanceFrom :: string
  MaintenanceTo :: string
  MaintenanceTimezone :: string
  RememberCookies :: bool
  PlaywrightScript :: string
  ScenarioName :: string
  Status :: string

record Pagination =
  First :: string
  Last :: string
  Previous :: string
  Next :: string

record 't EntityWrapper =
  ID :: string
  Type :: string
  Attributes :: 't

record 't ResponseWrapper =
  Data :: "'t EntityWrapper"
  Errors :: any
  Pagination :: Pagination

record 't ListWrapper =
  Data :: "'t EntityWrapper list"
  Errors :: any
  Pagination :: Pagination

type_synonym MonitorResponse = "Monitor ResponseWrapper"
type_synonym MonitorsResponse = "Monitor ListWrapper"

text \<open>The zero values of \<open>var result MonitorResponse\<close> and \<open>var result MonitorsResponse\<close>.\<close>

definition zeroMonitor :: Monitor where
  "zeroMonitor = \<lparr>Monitor.ID = [], TeamName = [], MonitorType = [], URL = [],
     PronounceableName = [], Email = False, SMS = False, Call = False, Push = False,
     CheckFrequency = 0, RequestHeaders = [], ExpectedStatusCodes = [],
     DomainExpiration = 0, SSLExpiration = 0, PolicyID = [], FollowRedirects = False,
     RequiredKeyword = [], TeamWait = 0, Paused = False, Port = 0, Regions = [],
     MonitorGroupID = AnyNil, RecoveryPeriod = 0, VerifySSL = False,
     ConfirmationPeriod = 0, HTTPMethod = [], RequestTimeout = 0, RequestMethod = [],
     AuthUsername = [], AuthPassword = [], MaintenanceDays = [], MaintenanceFrom = [],
     MaintenanceTo = [], MaintenanceTimezone = [], RememberCookies = False,
     PlaywrightScript = [], ScenarioName = [], Status = []\<rparr>"

definition zeroPagination :: Pagination where
  "zeroPagination = \<lparr>First = [], Last = [], Previous = [], Next = []\<rparr>"

definition zeroMonitorResponse :: MonitorResponse where
  "zeroMonitorResponse = \<lparr>ResponseWrapper.Data =
       \<lparr>EntityWrapper.ID = [], Type = [], Attributes = zeroMonitor\<rparr>,
     ResponseWrapper.Errors = AnyNil, ResponseWrapper.Pagination = zeroPagination\<rparr>"

definition zeroMonitorsResponse :: MonitorsResponse where
  "zeroMonitorsResponse = \<lparr>ListWrapper.Data = [], ListWrapper.Errors = AnyNil,
     ListWrapper.Pagination = zeroPagination\<rparr>"

definition HasNext :: "Pagination \<Rightarrow> bool" where
  "HasNext p = NotEmpty (Next p)"

definition HasPrevious :: "Pagination \<Rightarrow> bool" where
  "HasPrevious p = NotEmpty (Previous p)"

section \<open>The libraries behind the client\<close>

type_synonym Header = "(string \<times> string list) list"

record Request =
  Method :: string
  URL :: string
  Header :: Header
  Body :: "bytes option"

record Response =
  StatusCode :: int
  Status :: string
  Body :: bytes

text \<open>
  The library calls whose result the client cannot compute:
  \<^item> \<open>url_Parse\<close> is \<open>url.Parse\<close>;
  \<^item> \<open>http_Do\<close> is \<open>http.DefaultClient.Do\<close>: the answer to a request may depend on every
    request sent before it, so it takes the list of the requests issued so far (oldest
    first); every operation below returns that list extended by the requests it issued;
  \<^item> \<open>json_Marshal\<close> is \<open>json.Marshal\<close> on a \<open>Monitor\<close>;
  \<^item> \<open>json_DecodeMonitors\<close> and \<open>json_DecodeMonitor\<close> are \<open>json.NewDecoder(body).Decode\<close>
    into a zero \<open>MonitorsResponse\<close> and a zero \<open>MonitorResponse\<close>: the value left in
    \<open>result\<close> and the error.
\<close>

record env =
  url_Parse :: "string \<Rightarrow> lib_error + URL"
  http_Do :: "Request list \<Rightarrow> Request \<Rightarrow> lib_error + Response"
  json_Marshal :: "Monitor \<Rightarrow> lib_error + bytes"
  json_DecodeMonitors :: "bytes \<Rightarrow> MonitorsResponse \<times> lib_error option"
  json_DecodeMonitor :: "bytes \<Rightarrow> MonitorResponse \<times> lib_error option"

text \<open>\<open>http.NewRequest\<close> with one of the methods \<open>http.MethodGet\<close>, \<open>MethodPost\<close>,
  \<open>MethodPatch\<close>, \<open>MethodDelete\<close> (all valid) fails exactly when the URL does not parse. The
  request keeps the URL as the string it was built from.\<close>

definition NewRequest :: "env \<Rightarrow> string \<Rightarrow> string \<Rightarrow> bytes option \<Rightarrow> lib_error + Request" where
  "NewRequest env method url body =
     (case url_Parse env url of
        Inl e \<Rightarrow> Inl e
      | Inr u \<Rightarrow> Inr \<lparr>Method = method, Request.URL = url, Header = [], Request.Body = body\<rparr>)"

section \<open>The client\<close>

definition Blanc :: string where
  "Blanc = []"

definition ContentType :: string where
  "ContentType = ''Content-Type''"

definition ApplicationJSON :: string where
  "ApplicationJSON = ''application/json''"

definition BaseURL :: string where
  "BaseURL = ''https://uptime.betterstack.com''"

definition APIV2Group :: string where
  "APIV2Group = BaseURL @ ''/api/v2''"

definition Monitors :: string where
  "Monitors = APIV2Group @ ''/monitors''"

text \<open>\<open>fmt.Sprintf(MonitorID, id)\<close> with \<open>MonitorID = APIV2Group + "/monitors/%s"\<close>.\<close>

definition MonitorID :: "string \<Rightarrow> string" where
  "MonitorID id' = APIV2Group @ ''/monitors/'' @ id'"

record BetterstackClient =
  headers :: Header

text \<open>\<open>http.Header.Add\<close> appends under the canonical form of the key; \<open>Content-Type\<close> and
  \<open>Authorization\<close> are canonical already.\<close>

definition getDefaultHeaders :: Header where
  "getDefaultHeaders = Add [] ContentType ApplicationJSON"

definition NewClient :: "string \<Rightarrow> BetterstackClient" where
  "NewClient apiToken = \<lparr>headers = Add getDefaultHeaders ''Authorization'' (''Bearer '' @ apiToken)\<rparr>"

text \<open>\<open>NewClientFromENV\<close>, from the value of \<open>os.Getenv("BETTERSTACK_TOKEN")\<close>; \<open>None\<close> is
  \<open>log.Fatal\<close>, which ends the process.\<close>

definition NewClientFromENV :: "string \<Rightarrow> BetterstackClient option" where
  "NewClientFromENV token =
     (if IsEmpty token then None
      else Some \<lparr>headers = Add getDefaultHeaders ''Authorization'' (''Bearer '' @ token)\<rparr>)"

subsection \<open>Pagination.GetLastPage\<close>

definition GetLastPage :: "env \<Rightarrow> Pagination \<Rightarrow> int \<times> error option" where
  "GetLastPage env p =
     (case url_Parse env (Last p) of
        Inl err \<Rightarrow> (0, Some (Errorf ''failed to parse URL: %v'' [OpError (Some err)]))
      | Inr parsedURL \<Rightarrow>
          let queryParams = Query parsedURL;
              pageStr = Get queryParams ''page''
          in if IsEmpty pageStr then
               (0, Some (Errorf '''page' parameter not found in URL'' []))
             else
               (case Atoi pageStr of
                  Inl err \<Rightarrow> (0, Some (Errorf ''invalid 'page' value: %v'' [OpError (Some err)]))
                | Inr page \<Rightarrow> (page, None)))"

subsection \<open>ListMonitors\<close>

text \<open>Lines 54 to 71 of \<open>ListMonitors\<close>: the page is clamped, \<open>per_page\<close> and \<open>page\<close> are
  added, then the filter, if both its kind and its value are non-empty.\<close>

definition listParams :: "int \<Rightarrow> string \<Rightarrow> string \<Rightarrow> error + Values" where
  "listParams page0 filterType filterValue =
     (let page = (if page0 < 1 then 1 else page0);
          params = Add (Add [] ''per_page'' ''250'') ''page'' (itoa page)
      in if NotEmpty filterType \<and> NotEmpty filterValue then
           (if filterType = ''url'' then Inr (Add params ''url'' filterValue)
            else if filterType = ''pronounceable_name'' then
              Inr (Add params ''pronounceable_name'' filterValue)
            else Inl (Errorf ''invalid filter type: %s'' [OpString filterType]))
         else Inr params)"

definition ListMonitors ::
  "env \<Rightarrow> BetterstackClient \<Rightarrow> Request list \<Rightarrow> int \<Rightarrow> string \<Rightarrow> string
    \<Rightarrow> (MonitorsResponse \<times> error option) \<times> Request list" where
  "ListMonitors env c h page filterType filterValue =
     (let result = zeroMonitorsResponse in
      case listParams page filterType filterValue of
        Inl e \<Rightarrow> ((result, Some e), h)
      | Inr params \<Rightarrow>
          (let targetURL = Monitors @ ''?'' @ Encode params in
           (case NewRequest env ''GET'' targetURL None of
              Inl monsErr \<Rightarrow>
                ((result, Some (Errorf ''failed to create request: %v''
                    [OpError (Some monsErr)])), h)
            | Inr request \<Rightarrow>
                (let monitorsRequest = request\<lparr>Header := headers c\<rparr> in
                 (case http_Do env h monitorsRequest of
                    Inl monsRespErr \<Rightarrow>
                      ((result, Some (Errorf ''failed to execute request: %v''
                          [OpError (Some monsRespErr)])), h @ [monitorsRequest])
                  | Inr monitorsResponse \<Rightarrow>
                      (let (result, unmErr) =
                             json_DecodeMonitors env (Response.Body monitorsResponse) in
                       (case unmErr of
                          Some e \<Rightarrow>
                            ((result, Some (Errorf ''failed to unmarshal response: %v''
                                [OpError (Some e)])), h @ [monitorsRequest])
                        | None \<Rightarrow>
                            (if NotEmptyAny (ListWrapper.Errors result) then
                               ((result, Some (Errorf ''failed to list monitors: %v''
                                   [OpAny (ListWrapper.Errors result)])), h @ [monitorsRequest])
                             else ((result, None), h @ [monitorsRequest])))))))))"

subsection \<open>ListAllMonitors and FindMonitor\<close>

text \<open>The body of the three \<open>for _, mon := range \<dots>Data\<close> statements: the wrapper's identifier
  is written into the attributes, which are appended to the result.\<close>

definition appendMonitor :: "Monitor list \<Rightarrow> Monitor EntityWrapper \<Rightarrow> Monitor list" where
  "appendMonitor result mon = result @ [(Attributes mon)\<lparr>Monitor.ID := EntityWrapper.ID mon\<rparr>]"

definition appendMonitors :: "Monitor list \<Rightarrow> Monitor EntityWrapper list \<Rightarrow> Monitor list" where
  "appendMonitors result data = foldl appendMonitor result data"

text \<open>\<open>i++\<close> on a 64-bit \<open>int\<close>.\<close>

definition incr :: "int \<Rightarrow> int" where
  "incr i = (if i = MaxInt then MinInt else i + 1)"

text \<open>The loop \<open>for i := page; i <= lastPage; i++\<close> of lines 126 to 135. With
  \<open>lastPage = MaxInt\<close> and a server that answers every page the loop does not end; the
  value \<open>None\<close> stands for that.\<close>

partial_function (option) pagesLoop ::
  "env \<Rightarrow> BetterstackClient \<Rightarrow> int \<Rightarrow> int \<Rightarrow> Request list \<Rightarrow> Monitor list
    \<Rightarrow> ((Monitor list \<times> error option) \<times> Request list) option" where
  "pagesLoop env c i lastPage h result =
     (if i \<le> lastPage then
        (case ListMonitors env c h i Blanc Blanc of
           ((tempMonitors, Some tempErr), h1) \<Rightarrow> Some ((result, Some tempErr), h1)
         | ((tempMonitors, None), h1) \<Rightarrow>
             pagesLoop env c (incr i) lastPage h1
               (appendMonitors result (ListWrapper.Data tempMonitors)))
      else Some ((result, None), h))"

definition ListAllMonitors ::
  "env \<Rightarrow> BetterstackClient \<Rightarrow> Request list
    \<Rightarrow> ((Monitor list \<times> error option) \<times> Request list) option" where
  "ListAllMonitors env c h =
     (let result = []; page = 1 in
      case ListMonitors env c h page Blanc Blanc of
        ((monitorResponses, Some monsErr), h1) \<Rightarrow> Some ((result, Some monsErr), h1)
      | ((monitorResponses, None), h1) \<Rightarrow>
          (case GetLastPage env (ListWrapper.Pagination monitorResponses) of
             (lastPage, Some paginationErr) \<Rightarrow> Some ((result, Some paginationErr), h1)
           | (lastPage, None) \<Rightarrow>
               let result = appendMonitors result (ListWrapper.Data monitorResponses) in
               if page = lastPage then Some ((result, None), h1)
               else pagesLoop env c (incr page) lastPage h1 result))"

definition FindMonitor ::
  "env \<Rightarrow> BetterstackClient \<Rightarrow> Request list \<Rightarrow> string \<Rightarrow> string
    \<Rightarrow> (Monitor list \<times> error option) \<times> Request list" where
  "FindMonitor env c h kind val =
     (let result = []; page = 1 in
      case ListMonitors env c h page kind val of
        ((monitorResponses, Some monsErr), h1) \<Rightarrow> ((result, Some monsErr), h1)
      | ((monitorResponses, None), h1) \<Rightarrow>
          ((appendMonitors result (ListWrapper.Data monitorResponses), None), h1))"

subsection \<open>CreateMonitor, GetMonitor, UpdateMonitor, DeleteMonitor\<close>

text \<open>\<open>result.Data.Attributes.ID = result.Data.ID\<close>.\<close>

definition copyID :: "MonitorResponse \<Rightarrow> MonitorResponse" where
  "copyID result = result\<lparr>ResponseWrapper.Data :=
     (ResponseWrapper.Data result)\<lparr>Attributes :=
       (Attributes (ResponseWrapper.Data result))
         \<lparr>Monitor.ID := EntityWrapper.ID (ResponseWrapper.Data result)\<rparr>\<rparr>\<rparr>"

text \<open>In \<open>CreateMonitor\<close> and \<open>DeleteMonitor\<close> one condition,
  \<open>monsRespErr != nil || StatusCode != \<dots>\<close>, guards one \<open>return\<close> that formats \<open>monsRespErr\<close>;
  when only the status differs, \<open>monsRespErr\<close> is \<open>nil\<close>.\<close>

definition CreateMonitor ::
  "env \<Rightarrow> BetterstackClient \<Rightarrow> Request list \<Rightarrow> Monitor
    \<Rightarrow> (MonitorResponse \<times> error option) \<times> Request list" where
  "CreateMonitor env c h monitor =
     (let result = zeroMonitorResponse in
      (case json_Marshal env monitor of
         Inl serErr \<Rightarrow> ((result, Some (Returned serErr)), h)
       | Inr serializedBody \<Rightarrow>
           (case NewRequest env ''POST'' Monitors (Some serializedBody) of
              Inl monsErr \<Rightarrow>
                ((result, Some (Errorf ''failed to create request: %v''
                    [OpError (Some monsErr)])), h)
            | Inr request \<Rightarrow>
                (let monitorRequest = request\<lparr>Header := headers c\<rparr> in
                 (case http_Do env h monitorRequest of
                    Inl monsRespErr \<Rightarrow>
                      ((result, Some (Errorf ''failed to execute request: %v''
                          [OpError (Some monsRespErr)])), h @ [monitorRequest])
                  | Inr monitorResponse \<Rightarrow>
                      (if StatusCode monitorResponse \<noteq> 201 then
                         ((result, Some (Errorf ''failed to execute request: %v''
                             [OpError None])), h @ [monitorRequest])
                       else
                         (let (result, unmErr) =
                                json_DecodeMonitor env (Response.Body monitorResponse) in
                          (case unmErr of
                             Some e \<Rightarrow>
                               ((result, Some (Errorf ''failed to unmarshal response: %v''
                                   [OpError (Some e)])), h @ [monitorRequest])
                           | None \<Rightarrow>
                               (if NotEmptyAny (ResponseWrapper.Errors result) then
                                  ((result, Some (Errorf ''failed to list monitors: %v''
                                      [OpAny (ResponseWrapper.Errors result)])),
                                   h @ [monitorRequest])
                                else ((copyID result, None), h @ [monitorRequest]))))))))))"

definition GetMonitor ::
  "env \<Rightarrow> BetterstackClient \<Rightarrow> Request list \<Rightarrow> string
    \<Rightarrow> (MonitorResponse \<times> error option) \<times> Request list" where
  "GetMonitor env c h id' =
     (let result = zeroMonitorResponse;
          targetURL = MonitorID id' in
      (case NewRequest env ''GET'' targetURL None of
         Inl monErr \<Rightarrow>
           ((result, Some (Errorf ''failed to create request: %v'' [OpError (Some monErr)])), h)
       | Inr request \<Rightarrow>
           (let monitorRequest = request\<lparr>Header := headers c\<rparr> in
            (case http_Do env h monitorRequest of
               Inl monRespErr \<Rightarrow>
                 ((result, Some (Errorf ''failed to execute request: %v''
                     [OpError (Some monRespErr)])), h @ [monitorRequest])
             | Inr monitorResponse \<Rightarrow>
                 (let (result, unmErr) =
                        json_DecodeMonitor env (Response.Body monitorResponse) in
                  (case unmErr of
                     Some e \<Rightarrow>
                       ((result, Some (Errorf ''failed to unmarshal response: %v''
                           [OpError (Some e)])), h @ [monitorRequest])
                   | None \<Rightarrow>
                       (if NotEmptyAny (ResponseWrapper.Errors result) then
                          ((result, Some (Errorf ''failed to get monitor: %v''
                              [OpAny (ResponseWrapper.Errors result)])), h @ [monitorRequest])
                        else ((copyID result, None), h @ [monitorRequest]))))))))"

definition UpdateMonitor ::
  "env \<Rightarrow> BetterstackClient \<Rightarrow> Request list \<Rightarrow> string \<Rightarrow> Monitor
    \<Rightarrow> (MonitorResponse \<times> error option) \<times> Request list" where
  "UpdateMonitor env c h id' monitor =
     (let result = zeroMonitorResponse in
      (case json_Marshal env monitor of
         Inl serErr \<Rightarrow> ((result, Some (Returned serErr)), h)
       | Inr serializedBody \<Rightarrow>
           (let targetURL = MonitorID id' in
            (case NewRequest env ''PATCH'' targetURL (Some serializedBody) of
               Inl monErr \<Rightarrow>
                 ((result, Some (Errorf ''failed to create request: %v''
                     [OpError (Some monErr)])), h)
             | Inr request \<Rightarrow>
                 (let monitorRequest = request\<lparr>Header := headers c\<rparr> in
                  (case http_Do env h monitorRequest of
                     Inl monRespErr \<Rightarrow>
                       ((result, Some (Errorf ''failed to execute request: %v''
                           [OpError (Some monRespErr)])), h @ [monitorRequest])
                   | Inr monitorResponse \<Rightarrow>
                       (if StatusCode monitorResponse \<noteq> 200 then
                          ((result, Some (Errorf ''failed to execute request: %v''
                              [OpString (Response.Status monitorResponse)])),
                           h @ [monitorRequest])
                        else
                          (let (result, unmErr) =
                                 json_DecodeMonitor env (Response.Body monitorResponse) in
                           (case unmErr of
                              Some e \<Rightarrow>
                                ((result, Some (Errorf ''failed to unmarshal response: %v''
                                    [OpError (Some e)])), h @ [monitorRequest])
                            | None \<Rightarrow>
                                (if NotEmptyAny (ResponseWrapper.Errors result) then
                                   ((result, Some (Errorf ''failed to update monitor: %v''
                                       [OpAny (ResponseWrapper.Errors result)])),
                                    h @ [monitorRequest])
                                 else ((copyID result, None), h @ [monitorRequest])))))))))))"

definition DeleteMonitor ::
  "env \<Rightarrow> BetterstackClient \<Rightarrow> Request list \<Rightarrow> string \<Rightarrow> error option \<times> Request list" where
  "DeleteMonitor env c h id' =
     (let targetURL = MonitorID id' in
      (case NewRequest env ''DELETE'' targetURL None of
         Inl monErr \<Rightarrow>
           (Some (Errorf ''failed to create request: %v'' [OpError (Some monErr)]), h)
       | Inr request \<Rightarrow>
           (let monitorRequest = request\<lparr>Header := headers c\<rparr> in
            (case http_Do env h monitorRequest of
               Inl monRespErr \<Rightarrow>
                 (Some (Errorf ''failed to execute request: %v'' [OpError (Some monRespErr)]),
                  h @ [monitorRequest])
             | Inr monitorResponse \<Rightarrow>
                 (if StatusCode monitorResponse \<noteq> 204 then
                    (Some (Errorf ''failed to execute request: %v'' [OpError None]),
                     h @ [monitorRequest])
                  else (None, h @ [monitorRequest]))))))"

section \<open>Notions used in the statements\<close>

text \<open>The request \<open>ListMonitors\<close> builds for a query string, and the one for a page without a
  filter.\<close>

definition listRequest :: "BetterstackClient \<Rightarrow> string \<Rightarrow> Request" where
  "listRequest c query = \<lparr>Method = ''GET'', Request.URL = Monitors @ ''?'' @ query,
     Header = headers c, Request.Body = None\<rparr>"

definition clientRequest :: "BetterstackClient \<Rightarrow> string \<Rightarrow> string \<Rightarrow> bytes option \<Rightarrow> Request" where
  "clientRequest c method url body = \<lparr>Method = method, Request.URL = url,
     Header = headers c, Request.Body = body\<rparr>"

definition pageRequest :: "BetterstackClient \<Rightarrow> int \<Rightarrow> Request" where
  "pageRequest c page = listRequest c (''page='' @ itoa page @ ''&per_page=250'')"

definition clampPage :: "int \<Rightarrow> int" where
  "clampPage page = (if page < 1 then 1 else page)"

text \<open>The attributes of a wrapper with the wrapper's identifier in their \<open>ID\<close>.\<close>

definition withID :: "Monitor EntityWrapper \<Rightarrow> Monitor" where
  "withID mon = (Attributes mon)\<lparr>Monitor.ID := EntityWrapper.ID mon\<rparr>"

definition pageItems :: "MonitorsResponse \<Rightarrow> Monitor list" where
  "pageItems r = map withID (ListWrapper.Data r)"

text \<open>The wrappers the server sent in answer to a request, and in answer to a sequence of
  requests issued one after the other from the history \<open>h\<close>.\<close>

definition pageData :: "env \<Rightarrow> Request list \<Rightarrow> Request \<Rightarrow> Monitor EntityWrapper list" where
  "pageData env h req =
     (case http_Do env h req of
        Inl e \<Rightarrow> []
      | Inr resp \<Rightarrow> ListWrapper.Data (fst (json_DecodeMonitors env (Response.Body resp))))"

fun received :: "env \<Rightarrow> Request list \<Rightarrow> Request list \<Rightarrow> Monitor EntityWrapper list" where
  "received env h [] = []"
| "received env h (req # reqs) = pageData env h req @ received env (h @ [req]) reqs"

section \<open>A test double for the libraries\<close>

text \<open>
  The concrete runs below need an \<open>env\<close>. Its \<open>url_Parse\<close> follows the steps of \<open>url.Parse\<close>
  (fragment, control characters, \<open>*\<close>, scheme, query, opaque and relative forms, authority
  and path) and leaves out the validation of the authority and of percent escapes in
  path and fragment and the lower-casing of the scheme; it is only applied to the empty
  string and to lower-case \<open>https\<close> URLs with a plain host name and no percent escape
  outside the query, where \<open>url.Parse\<close> gives the same answer. The transport answers from
  a table, and the JSON codec knows a handful of bodies.
\<close>

definition isCTL :: "char \<Rightarrow> bool" where
  "isCTL c = (c < CHR 0x20 \<or> c = CHR 0x7F)"

definition isAlpha :: "char \<Rightarrow> bool" where
  "isAlpha c = (between CHR ''a'' CHR ''z'' c \<or> between CHR ''A'' CHR ''Z'' c)"

fun getScheme :: "string \<Rightarrow> string \<Rightarrow> string \<Rightarrow> lib_error + string \<times> string" where
  "getScheme rawURL pre [] = Inr ([], rawURL)"
| "getScheme rawURL pre (c # cs) =
     (if isAlpha c then getScheme rawURL (pre @ [c]) cs
      else if isDigit c \<or> c \<in> set ''+-.'' then
        (if pre = [] then Inr ([], rawURL) else getScheme rawURL (pre @ [c]) cs)
      else if c = CHR '':'' then
        (if pre = [] then Inl (LibError ''missing protocol scheme'') else Inr (pre, cs))
      else Inr ([], rawURL))"

definition hasPrefix :: "string \<Rightarrow> string \<Rightarrow> bool" where
  "hasPrefix s p = (take (length p) s = p)"

definition plainParse :: "string \<Rightarrow> lib_error + URL" where
  "plainParse rawURL =
     (let (u, frag, found) = Cut rawURL CHR ''#'' in
      if \<exists>c \<in> set u. isCTL c then Inl (LibError ''net/url: invalid control character in URL'')
      else if u = ''*'' then
        Inr \<lparr>Scheme = [], Opaque = [], Host = [], Path = ''*'', RawQuery = [], Fragment = frag\<rparr>
      else
        (case getScheme u [] u of
           Inl e \<Rightarrow> Inl e
         | Inr (scheme, rest0) \<Rightarrow>
             (let (rest, rawQuery) =
                    (if rest0 \<noteq> [] \<and> last rest0 = CHR ''?'' \<and> count_list rest0 CHR ''?'' = 1
                     then (butlast rest0, [])
                     else (fst (Cut rest0 CHR ''?''), fst (snd (Cut rest0 CHR ''?''))))
              in if \<not> hasPrefix rest ''/'' \<and> scheme \<noteq> [] then
                   Inr \<lparr>Scheme = scheme, Opaque = rest, Host = [], Path = [],
                     RawQuery = rawQuery, Fragment = frag\<rparr>
                 else if \<not> hasPrefix rest ''/'' \<and> CHR '':'' \<in> set (fst (Cut rest CHR ''/'')) then
                   Inl (LibError ''first path segment in URL cannot contain colon'')
                 else if (scheme \<noteq> [] \<or> \<not> hasPrefix rest ''///'') \<and> hasPrefix rest ''//'' then
                   Inr \<lparr>Scheme = scheme, Opaque = [],
                     Host = takeWhile (\<lambda>c. c \<noteq> CHR ''/'') (drop 2 rest),
                     Path = dropWhile (\<lambda>c. c \<noteq> CHR ''/'') (drop 2 rest),
                     RawQuery = rawQuery, Fragment = frag\<rparr>
                 else
                   Inr \<lparr>Scheme = scheme, Opaque = [], Host = [], Path = rest,
                     RawQuery = rawQuery, Fragment = frag\<rparr>)))"

definition sampleMonitor :: "string \<Rightarrow> Monitor" where
  "sampleMonitor name = zeroMonitor\<lparr>MonitorType := ''status'',
     Monitor.URL := ''https://example.com/'' @ name, PronounceableName := name\<rparr>"

definition sampleEntity :: "string \<Rightarrow> string \<Rightarrow> Monitor EntityWrapper" where
  "sampleEntity id' name = \<lparr>EntityWrapper.ID = id', Type = ''monitor'',
     Attributes = sampleMonitor name\<rparr>"

definition sampleLinks :: "string \<Rightarrow> Pagination" where
  "sampleLinks lastLink = \<lparr>First = Monitors @ ''?page=1'', Last = lastLink, Previous = [], Next = []\<rparr>"

definition sampleDecodeMonitors :: "bytes \<Rightarrow> MonitorsResponse \<times> lib_error option" where
  "sampleDecodeMonitors body =
     (if body = ''page 1 of 3'' then
        (\<lparr>ListWrapper.Data = [sampleEntity ''11'' ''a'', sampleEntity ''12'' ''b''],
          ListWrapper.Errors = AnyNil,
          ListWrapper.Pagination = sampleLinks (Monitors @ ''?page=3'')\<rparr>, None)
      else if body = ''page 2 of 3'' then
        (\<lparr>ListWrapper.Data = [sampleEntity ''21'' ''c'', sampleEntity ''22'' ''d''],
          ListWrapper.Errors = AnyNil,
          ListWrapper.Pagination = sampleLinks (Monitors @ ''?page=3'')\<rparr>, None)
      else if body = ''page 3 of 3'' then
        (\<lparr>ListWrapper.Data = [sampleEntity ''31'' ''e'', sampleEntity ''32'' ''f''],
          ListWrapper.Errors = AnyNil,
          ListWrapper.Pagination = sampleLinks (Monitors @ ''?page=3'')\<rparr>, None)
      else if body = ''monitors named e'' then
        (\<lparr>ListWrapper.Data = [sampleEntity ''31'' ''e''],
          ListWrapper.Errors = AnyNil,
          ListWrapper.Pagination = sampleLinks (Monitors @ ''?page=1'')\<rparr>, None)
      else if body = ''page without last link'' then
        (\<lparr>ListWrapper.Data = [sampleEntity ''11'' ''a'', sampleEntity ''12'' ''b''],
          ListWrapper.Errors = AnyNil,
          ListWrapper.Pagination = sampleLinks []\<rparr>, None)
      else if body = ''errors'' then
        (\<lparr>ListWrapper.Data = [], ListWrapper.Errors = AnyString ''Invalid API token'',
          ListWrapper.Pagination = zeroPagination\<rparr>, None)
      else (zeroMonitorsResponse, Some (LibError ''unexpected end of JSON input'')))"

definition sampleDecodeMonitor :: "bytes \<Rightarrow> MonitorResponse \<times> lib_error option" where
  "sampleDecodeMonitor body =
     (if body = ''monitor 11'' then
        (\<lparr>ResponseWrapper.Data = sampleEntity ''11'' ''a'', ResponseWrapper.Errors = AnyNil,
          ResponseWrapper.Pagination = zeroPagination\<rparr>, None)
      else if body = ''errors'' then
        (\<lparr>ResponseWrapper.Data = \<lparr>EntityWrapper.ID = [], Type = [], Attributes = zeroMonitor\<rparr>,
          ResponseWrapper.Errors = AnyString ''Invalid API token'',
          ResponseWrapper.Pagination = zeroPagination\<rparr>, None)
      else (zeroMonitorResponse, Some (LibError ''unexpected end of JSON input'')))"

text \<open>A transport that answers from a table of (method, URL, answer) and refuses every
  other request.\<close>

fun tableDo :: "(string \<times> string \<times> (lib_error + Response)) list \<Rightarrow> Request list \<Rightarrow> Request
    \<Rightarrow> lib_error + Response" where
  "tableDo [] h req = Inl (LibError ''connection refused'')"
| "tableDo ((m, u, answer) # table) h req =
     (if m = Method req \<and> u = Request.URL req then answer else tableDo table h req)"

definition sampleEnv :: "(string \<times> string \<times> (lib_error + Response)) list \<Rightarrow> env" where
  "sampleEnv table = \<lparr>url_Parse = plainParse, http_Do = tableDo table,
     json_Marshal = (\<lambda>m. Inr (PronounceableName m)),
     json_DecodeMonitors = sampleDecodeMonitors, json_DecodeMonitor = sampleDecodeMonitor\<rparr>"

definition answer :: "int \<Rightarrow> string \<Rightarrow> bytes \<Rightarrow> lib_error + Response" where
  "answer code status body = Inr \<lparr>StatusCode = code, Status = status, Response.Body = body\<rparr>"

definition threePages :: "(string \<times> string \<times> (lib_error + Response)) list" where
  "threePages =
     [(''GET'', Monitors @ ''?page=1&per_page=250'', answer 200 ''200 OK'' ''page 1 of 3''),
      (''GET'', Monitors @ ''?page=2&per_page=250'', answer 200 ''200 OK'' ''page 2 of 3''),
      (''GET'', Monitors @ ''?page=3&per_page=250'', answer 200 ''200 OK'' ''page 3 of 3'')]"

definition sampleClient :: BetterstackClient where
  "sampleClient = NewClient ''token''"

text \<open>Three pages of two monitors; the same with the third page unreachable, and with
  the second page unreachable; one page
  whose \<open>last\<close> link is empty; the routes of one monitor and of a search by name; answers
  that carry an \<open>errors\<close> field; answers with an unexpected status.\<close>

definition twoOfThree :: "(string \<times> string \<times> (lib_error + Response)) list" where
  "twoOfThree =
     [(''GET'', Monitors @ ''?page=1&per_page=250'', answer 200 ''200 OK'' ''page 1 of 3''),
      (''GET'', Monitors @ ''?page=2&per_page=250'', answer 200 ''200 OK'' ''page 2 of 3'')]"

definition oneOfThree :: "(string \<times> string \<times> (lib_error + Response)) list" where
  "oneOfThree =
     [(''GET'', Monitors @ ''?page=1&per_page=250'', answer 200 ''200 OK'' ''page 1 of 3'')]"

definition noLastLink :: "(string \<times> string \<times> (lib_error + Response)) list" where
  "noLastLink =
     [(''GET'', Monitors @ ''?page=1&per_page=250'',
       answer 200 ''200 OK'' ''page without last link'')]"

definition oneMonitor :: "(string \<times> string \<times> (lib_error + Response)) list" where
  "oneMonitor =
     [(''GET'', MonitorID ''11'', answer 200 ''200 OK'' ''monitor 11''),
      (''POST'', Monitors, answer 201 ''201 Created'' ''monitor 11''),
      (''PATCH'', MonitorID ''11'', answer 200 ''200 OK'' ''monitor 11''),
      (''DELETE'', MonitorID ''11'', answer 204 ''204 No Content'' []),
      (''GET'', Monitors @ ''?page=1&per_page=250&pronounceable_name=e'',
       answer 200 ''200 OK'' ''monitors named e'')]"

definition withErrors :: "(string \<times> string \<times> (lib_error + Response)) list" where
  "withErrors =
     [(''GET'', Monitors @ ''?page=1&per_page=250'', answer 200 ''200 OK'' ''errors''),
      (''POST'', Monitors, answer 201 ''201 Created'' ''errors''),
      (''GET'', MonitorID ''11'', answer 200 ''200 OK'' ''monitor 11''),
      (''PATCH'', MonitorID ''11'', answer 200 ''200 OK'' ''monitor 11'')]"

definition wrongStatus :: "(string \<times> string \<times> (lib_error + Response)) list" where
  "wrongStatus =
     [(''POST'', Monitors, answer 200 ''200 OK'' ''monitor 11''),
      (''PATCH'', MonitorID ''11'', answer 404 ''404 Not Found'' ''errors''),
      (''DELETE'', MonitorID ''11'', answer 200 ''200 OK'' [])]"


section \<open>Query encoding\<close>

lemma digit_char: "n < 10 \<Longrightarrow> isDigit (''0123456789'' ! n)"
proof -
  assume "n < 10"
  then have "n \<in> {0, 1, 2, 3, 4, 5, 6, 7, 8, 9}" by auto
  then show ?thesis by (auto simp: isDigit_def)
qed

lemma digits_isDigit: "\<forall>c \<in> set (digits n). isDigit c"
proof (induction n rule: digits.induct)
  case (1 n)
  show ?case
  proof (cases "n < 10")
    case True
    then show ?thesis by (subst digits.simps) (simp add: digit_char)
  next
    case False
    with 1 show ?thesis by (subst digits.simps) (simp add: digit_char)
  qed
qed

lemma isDigit_unreserved: "isDigit c \<Longrightarrow> \<not> shouldEscape c \<and> c \<noteq> CHR '' ''"
  by (auto simp: isDigit_def shouldEscape_def isAlnum_def)

lemma QueryEscape_unreserved:
  "\<forall>c \<in> set s. \<not> shouldEscape c \<and> c \<noteq> CHR '' '' \<Longrightarrow> QueryEscape s = s"
  by (induction s) auto

lemma QueryEscape_itoa: "0 \<le> i \<Longrightarrow> QueryEscape (itoa i) = itoa i"
  by (rule QueryEscape_unreserved) (simp add: itoa_def digits_isDigit isDigit_unreserved)

lemma Encode_plain:
  "Encode (Add (Add [] ''per_page'' ''250'') ''page'' p) = ''page='' @ QueryEscape p @ ''&per_page=250''"
  by (simp add: Encode_def shouldEscape_def isAlnum_def)

lemma Encode_url:
  "Encode (Add (Add (Add [] ''per_page'' ''250'') ''page'' p) ''url'' v)
     = ''page='' @ QueryEscape p @ ''&per_page=250&url='' @ QueryEscape v"
  by (simp add: Encode_def shouldEscape_def isAlnum_def)

lemma Encode_name:
  "Encode (Add (Add (Add [] ''per_page'' ''250'') ''page'' p) ''pronounceable_name'' v)
     = ''page='' @ QueryEscape p @ ''&per_page=250&pronounceable_name='' @ QueryEscape v"
  by (simp add: Encode_def shouldEscape_def isAlnum_def)


section \<open>The single-page list call\<close>

lemma listParams_blank:
  "filterType = [] \<or> filterValue = [] \<Longrightarrow>
     listParams page filterType filterValue
       = Inr [(''per_page'', [''250'']), (''page'', [itoa (clampPage page)])]"
  by (auto simp: listParams_def NotEmpty_def IsEmpty_def clampPage_def)

lemma listParams_url:
  "filterValue \<noteq> [] \<Longrightarrow>
     listParams page ''url'' filterValue
       = Inr [(''per_page'', [''250'']), (''page'', [itoa (clampPage page)]), (''url'', [filterValue])]"
  by (simp add: listParams_def NotEmpty_def IsEmpty_def clampPage_def)

lemma listParams_name:
  "filterValue \<noteq> [] \<Longrightarrow>
     listParams page ''pronounceable_name'' filterValue
       = Inr [(''per_page'', [''250'']), (''page'', [itoa (clampPage page)]),
           (''pronounceable_name'', [filterValue])]"
  by (simp add: listParams_def NotEmpty_def IsEmpty_def clampPage_def)

lemma listParams_invalid:
  "filterType \<noteq> [] \<Longrightarrow> filterValue \<noteq> [] \<Longrightarrow> filterType \<noteq> ''url'' \<Longrightarrow>
   filterType \<noteq> ''pronounceable_name'' \<Longrightarrow>
     listParams page filterType filterValue
       = Inl (Errorf ''invalid filter type: %s'' [OpString filterType])"
  by (simp add: listParams_def NotEmpty_def IsEmpty_def)

lemma clampPage_nonneg: "0 \<le> clampPage page"
  by (simp add: clampPage_def)

lemma Encode_list2:
  "Encode [(''per_page'', [''250'']), (''page'', [itoa (clampPage page)])]
     = ''page='' @ itoa (clampPage page) @ ''&per_page=250''"
  using Encode_plain [of "itoa (clampPage page)"] by (simp add: QueryEscape_itoa clampPage_nonneg)

lemma Encode_list3_url:
  "Encode [(''per_page'', [''250'']), (''page'', [itoa (clampPage page)]), (''url'', [v])]
     = ''page='' @ itoa (clampPage page) @ ''&per_page=250&url='' @ QueryEscape v"
  using Encode_url [of "itoa (clampPage page)" v] by (simp add: QueryEscape_itoa clampPage_nonneg)

lemma Encode_list3_name:
  "Encode [(''per_page'', [''250'']), (''page'', [itoa (clampPage page)]), (''pronounceable_name'', [v])]
     = ''page='' @ itoa (clampPage page) @ ''&per_page=250&pronounceable_name='' @ QueryEscape v"
  using Encode_name [of "itoa (clampPage page)" v] by (simp add: QueryEscape_itoa clampPage_nonneg)

lemma ListMonitors_log:
  "snd (ListMonitors env c h page filterType filterValue) =
     (case listParams page filterType filterValue of
        Inl e \<Rightarrow> h
      | Inr params \<Rightarrow>
          (case url_Parse env (Monitors @ ''?'' @ Encode params) of
             Inl e \<Rightarrow> h
           | Inr u \<Rightarrow> h @ [listRequest c (Encode params)]))"
  by (simp add: ListMonitors_def NewRequest_def listRequest_def Let_def
      split: sum.splits option.splits prod.splits)

lemma ListMonitors_invalid_filter:
  assumes "listParams page filterType filterValue = Inl e"
  shows "ListMonitors env c h page filterType filterValue = ((zeroMonitorsResponse, Some e), h)"
  using assms by (simp add: ListMonitors_def)


section \<open>Evaluation of the concrete runs\<close>

lemmas url_simps = plainParse_def Cut_def hasPrefix_def isCTL_def isAlpha_def isDigit_def
  Monitors_def APIV2Group_def BaseURL_def MonitorID_def

lemma itoa_small:
  "itoa 1 = ''1''" "itoa 2 = ''2''" "itoa 3 = ''3''"
  by (simp_all add: itoa_def digits.simps)

lemmas eval_simps = ListMonitors_def listParams_def NotEmpty_def IsEmpty_def itoa_def
  digits.simps Encode_def shouldEscape_def isAlnum_def hexByte_def NewRequest_def
  sampleEnv_def url_simps threePages_def answer_def sampleDecodeMonitors_def NotEmptyAny_def
  listRequest_def pageRequest_def clientRequest_def twoOfThree_def oneOfThree_def noLastLink_def
  oneMonitor_def withErrors_def wrongStatus_def sampleDecodeMonitor_def Blanc_def


section \<open>Page size and page number\<close>

text \<open>
  C9. Every list call that issues a request sends \<open>per_page=250\<close>, and a page argument
  below 1 is sent as page 1: the parameters are \<open>per_page = 250\<close> and \<open>page\<close> = the clamped
  page, the query string of the request is \<open>page=<clamped page>&per_page=250\<close> followed by
  the filter, if there is one, and the request is the only one added to the history.
\<close>

theorem list_page_size_and_clamp:
  assumes "ListMonitors env c h page filterType filterValue = (r, h')" and "h' \<noteq> h"
  shows "\<exists>params. listParams page filterType filterValue = Inr params
    \<and> lookup params ''per_page'' = [''250'']
    \<and> lookup params ''page'' = [itoa (if page < 1 then 1 else page)]
    \<and> Encode params = ''page='' @ itoa (if page < 1 then 1 else page) @ ''&per_page=250''
         @ (if filterType = [] \<or> filterValue = [] then []
            else ''&'' @ filterType @ ''='' @ QueryEscape filterValue)
    \<and> h' = h @ [listRequest c (Encode params)]"
proof -
  from assms have log: "snd (ListMonitors env c h page filterType filterValue) \<noteq> h"
    and log': "h' = snd (ListMonitors env c h page filterType filterValue)" by simp_all
  from log obtain params where p: "listParams page filterType filterValue = Inr params"
    by (cases "listParams page filterType filterValue") (simp_all add: ListMonitors_log)
  with log log' have h': "h' = h @ [listRequest c (Encode params)]"
    by (simp add: ListMonitors_log split: sum.splits)
  consider (blank) "filterType = [] \<or> filterValue = []"
    | (url) "filterType = ''url''" "filterValue \<noteq> []"
    | (name) "filterType = ''pronounceable_name''" "filterValue \<noteq> []"
    | (other) "filterType \<noteq> []" "filterValue \<noteq> []" "filterType \<noteq> ''url''"
        "filterType \<noteq> ''pronounceable_name''"
    by blast
  then show ?thesis
  proof cases
    case blank
    with p h' show ?thesis
      using listParams_blank [of filterType filterValue page] Encode_list2 [of page]
      by (auto simp: clampPage_def)
  next
    case url
    with p h' show ?thesis
      using listParams_url [of filterValue page] Encode_list3_url [of page filterValue]
      by (auto simp: clampPage_def)
  next
    case name
    with p h' show ?thesis
      using listParams_name [of filterValue page] Encode_list3_name [of page filterValue]
      by (auto simp: clampPage_def)
  next
    case other
    with p show ?thesis using listParams_invalid [of filterType filterValue page] by simp
  qed
qed


theorem list_page_size_and_clamp_witness:
  "ListMonitors (sampleEnv threePages) sampleClient [] (- 3) ''url'' ''a b''
     = ((zeroMonitorsResponse, Some (Errorf ''failed to execute request: %v''
          [OpError (Some (LibError ''connection refused''))])),
        [listRequest sampleClient ''page=1&per_page=250&url=a+b''])
   \<and> [listRequest sampleClient ''page=1&per_page=250&url=a+b''] \<noteq> []
   \<and> (\<exists>params. listParams (- 3) ''url'' ''a b'' = Inr params
        \<and> lookup params ''per_page'' = [''250'']
        \<and> lookup params ''page'' = [''1'']
        \<and> Encode params = ''page=1&per_page=250&url=a+b''
        \<and> [listRequest sampleClient ''page=1&per_page=250&url=a+b'']
            = [] @ [listRequest sampleClient (Encode params)])"
proof -
  have run: "ListMonitors (sampleEnv threePages) sampleClient [] (- 3) ''url'' ''a b''
     = ((zeroMonitorsResponse, Some (Errorf ''failed to execute request: %v''
          [OpError (Some (LibError ''connection refused''))])),
        [listRequest sampleClient ''page=1&per_page=250&url=a+b''])"
    by (simp add: eval_simps)
  have issued: "[listRequest sampleClient ''page=1&per_page=250&url=a+b''] \<noteq> []" by simp
  from list_page_size_and_clamp [OF run issued] run show ?thesis
    by (simp add: itoa_def digits.simps shouldEscape_def isAlnum_def)
qed


lemma appendMonitors_map: "appendMonitors result data = result @ map withID data"
  unfolding appendMonitors_def
  by (induction data arbitrary: result) (simp_all add: appendMonitor_def withID_def)

lemma upto_first: "i \<le> j \<Longrightarrow> [i..j] = i # [i + 1..j]"
  by (simp add: upto_rec1)

lemma pagesLoop_past: "lastPage < i \<Longrightarrow> pagesLoop env c i lastPage h result = Some ((result, None), h)"
  by (subst pagesLoop.simps) simp

lemma incr_below: "i < MaxInt \<Longrightarrow> incr i = i + 1"
  by (simp add: incr_def)

lemma pagesLoop_stops:
  assumes "i \<le> k" and "k \<le> lastPage" and "lastPage \<le> MaxInt"
    and "\<forall>j. i \<le> j \<and> j < k \<longrightarrow>
           ListMonitors env c (hs (j - 1)) j Blanc Blanc = ((r j, None), hs j)"
    and "ListMonitors env c (hs (k - 1)) k Blanc Blanc = ((rk, Some e), hk)"
  shows "pagesLoop env c i lastPage (hs (i - 1)) result
    = Some ((result @ concat (map (\<lambda>j. pageItems (r j)) [i..k - 1]), Some e), hk)"
  using assms
proof (induction "nat (k - i)" arbitrary: i result)
  case 0
  then have "i = k" by simp
  with 0 show ?case by (subst pagesLoop.simps) simp
next
  case (Suc d)
  then have lt: "i < k" by linarith
  with Suc.prems have page: "ListMonitors env c (hs (i - 1)) i Blanc Blanc = ((r i, None), hs i)"
    by simp
  from lt Suc.prems have inc: "incr i = i + 1" by (simp add: incr_below)
  have "pagesLoop env c (i + 1) lastPage (hs (i + 1 - 1)) (result @ pageItems (r i))
    = Some (((result @ pageItems (r i)) @ concat (map (\<lambda>j. pageItems (r j)) [i + 1..k - 1]),
        Some e), hk)"
    using Suc.hyps(2) Suc.prems lt by (intro Suc.hyps(1)) auto
  moreover have "[i..k - 1] = i # [i + 1..k - 1]" using lt by (simp add: upto_first)
  ultimately show ?case using lt Suc.prems(2) page inc
    by (subst pagesLoop.simps) (simp add: appendMonitors_map pageItems_def)
qed

lemma pagesLoop_completes:
  assumes "i \<le> lastPage + 1" and "lastPage < MaxInt"
    and "\<forall>j. i \<le> j \<and> j \<le> lastPage \<longrightarrow>
           ListMonitors env c (hs (j - 1)) j Blanc Blanc = ((r j, None), hs j)"
  shows "pagesLoop env c i lastPage (hs (i - 1)) result
    = Some ((result @ concat (map (\<lambda>j. pageItems (r j)) [i..lastPage]), None), hs lastPage)"
  using assms
proof (induction "nat (lastPage + 1 - i)" arbitrary: i result)
  case 0
  then have "i = lastPage + 1" by simp
  then show ?case by (simp add: pagesLoop_past)
next
  case (Suc d)
  then have le: "i \<le> lastPage" by linarith
  with Suc.prems have page: "ListMonitors env c (hs (i - 1)) i Blanc Blanc = ((r i, None), hs i)"
    by simp
  from le Suc.prems have inc: "incr i = i + 1" by (simp add: incr_below)
  have "pagesLoop env c (i + 1) lastPage (hs (i + 1 - 1)) (result @ pageItems (r i))
    = Some (((result @ pageItems (r i)) @ concat (map (\<lambda>j. pageItems (r j)) [i + 1..lastPage]),
        None), hs lastPage)"
    using Suc.hyps(2) Suc.prems le by (intro Suc.hyps(1)) auto
  moreover have "[i..lastPage] = i # [i + 1..lastPage]" using le by (simp add: upto_first)
  ultimately show ?case using le page inc
    by (subst pagesLoop.simps) (simp add: appendMonitors_map pageItems_def)
qed

lemma Atoi_range: "Atoi s = Inr n \<Longrightarrow> MinInt \<le> n \<and> n \<le> MaxInt"
  by (auto simp: Atoi_def ParseInt_def MinInt_def MaxInt_def Let_def
      split: sum.splits num_err.splits if_splits)

lemma GetLastPage_range: "GetLastPage env p = (n, None) \<Longrightarrow> MinInt \<le> n \<and> n \<le> MaxInt"
  by (auto simp: GetLastPage_def Let_def MinInt_def MaxInt_def dest: Atoi_range
      split: sum.splits if_splits)

lemma ListMonitors_success:
  assumes "ListMonitors env c h page filterType filterValue = ((r, None), h')"
  shows "\<exists>params. listParams page filterType filterValue = Inr params
    \<and> h' = h @ [listRequest c (Encode params)]
    \<and> ListWrapper.Data r = pageData env h (listRequest c (Encode params))
    \<and> IsEmptyAny (ListWrapper.Errors r)"
  using assms
  by (auto simp: ListMonitors_def NewRequest_def listRequest_def pageData_def Let_def
      NotEmptyAny_def split: sum.splits option.splits prod.splits if_splits)

lemma ListMonitors_blank_log:
  assumes "ListMonitors env c h page Blanc Blanc = ((r, None), h')"
  shows "h' = h @ [pageRequest c (clampPage page)]"
  using ListMonitors_success [OF assms] listParams_blank [of "[]" "[]" page] Encode_list2 [of page]
  by (auto simp: Blanc_def pageRequest_def)

lemma pagesLoop_received:
  assumes "pagesLoop env c i lastPage h result = Some y"
  shows "snd (fst y) = None \<longrightarrow>
    (\<exists>reqs. snd y = h @ reqs \<and> fst (fst y) = result @ map withID (received env h reqs))"
  using assms
proof (induction rule: pagesLoop.raw_induct [rotated, consumes 1, case_names step])
  case (step pagesLoop' env c i lastPage h result y)
  show ?case
  proof (cases "i \<le> lastPage")
    case False
    with step(2) have "y = ((result, None), h)" by simp
    then show ?thesis by (auto intro: exI [of _ "[]"])
  next
    case True
    obtain tempMonitors tempErr h1 where
      page: "ListMonitors env c h i Blanc Blanc = ((tempMonitors, tempErr), h1)"
      by (metis prod.exhaust)
    show ?thesis
    proof (cases tempErr)
      case (Some e)
      with True page step(2) show ?thesis by auto
    next
      case None
      with True page step(2) have inner: "pagesLoop' env c (incr i) lastPage h1
          (appendMonitors result (ListWrapper.Data tempMonitors)) = Some y" by simp
      from ListMonitors_success [OF page [unfolded None]] obtain req where
        req: "h1 = h @ [req]" "ListWrapper.Data tempMonitors = pageData env h req" by blast
      show ?thesis
      proof
        assume "snd (fst y) = None"
        with step(1) [OF inner] obtain reqs where
          "snd y = h1 @ reqs"
          "fst (fst y) = appendMonitors result (ListWrapper.Data tempMonitors)
             @ map withID (received env h1 reqs)" by blast
        with req have "snd y = h @ (req # reqs)
          \<and> fst (fst y) = result @ map withID (received env h (req # reqs))"
          by (simp add: appendMonitors_map)
        then show "\<exists>reqs. snd y = h @ reqs
          \<and> fst (fst y) = result @ map withID (received env h reqs)" by blast
      qed
    qed
  qed
qed

lemma ListAllMonitors_received:
  assumes "ListAllMonitors env c h = Some ((ms, None), h')"
  shows "\<exists>reqs. h' = h @ reqs \<and> ms = map withID (received env h reqs)"
proof -
  obtain r err h1 where page: "ListMonitors env c h 1 Blanc Blanc = ((r, err), h1)"
    by (metis prod.exhaust)
  obtain lastPage perr where lp: "GetLastPage env (ListWrapper.Pagination r) = (lastPage, perr)"
    by (metis prod.exhaust)
  from assms page have err: "err = None"
    by (cases err) (simp_all add: ListAllMonitors_def)
  from assms page lp err have perr: "perr = None"
    by (cases perr) (simp_all add: ListAllMonitors_def)
  from ListMonitors_success [OF page [unfolded err]] obtain req where
    req: "h1 = h @ [req]" "ListWrapper.Data r = pageData env h req" by blast
  show ?thesis
  proof (cases "1 = lastPage")
    case True
    with assms page lp err perr have "ms = map withID (ListWrapper.Data r)" "h' = h1"
      by (simp_all add: ListAllMonitors_def appendMonitors_map)
    with req have "h' = h @ [req] \<and> ms = map withID (received env h [req])" by simp
    then show ?thesis by blast
  next
    case False
    with assms page lp err perr have
      "pagesLoop env c (incr 1) lastPage h1 (map withID (ListWrapper.Data r)) = Some ((ms, None), h')"
      by (simp add: ListAllMonitors_def appendMonitors_map)
    from pagesLoop_received [OF this] obtain reqs where
      "h' = h1 @ reqs" "ms = map withID (ListWrapper.Data r) @ map withID (received env h1 reqs)"
      by auto
    with req have "h' = h @ (req # reqs) \<and> ms = map withID (received env h (req # reqs))"
      by simp
    then show ?thesis by blast
  qed
qed

section \<open>The enumerator on three pages\<close>

text \<open>
  C1. If the three single-page list calls for pages 1, 2 and 3 succeed with two items
  each, the call for page \<open>k\<close> being made after the calls for the pages before it, and
  the \<open>last\<close> link of page 1 gives the page count 3, then \<open>ListAllMonitors\<close> returns the six
  items in one list, page 1 first and each page in the order received (each item with
  its wrapper's identifier), with no error, and the requests it issued are exactly the
  three page requests, for pages 1, 2, 3 in that order.
\<close>

theorem ListAllMonitors_three_pages:
  assumes "ListMonitors env c h 1 Blanc Blanc = ((r1, None), h1)"
    and "ListWrapper.Data r1 = [a1, a2]"
    and "GetLastPage env (ListWrapper.Pagination r1) = (3, None)"
    and "ListMonitors env c h1 2 Blanc Blanc = ((r2, None), h2)"
    and "ListWrapper.Data r2 = [a3, a4]"
    and "ListMonitors env c h2 3 Blanc Blanc = ((r3, None), h3)"
    and "ListWrapper.Data r3 = [a5, a6]"
  shows "ListAllMonitors env c h
      = Some ((map withID [a1, a2, a3, a4, a5, a6], None),
          h @ [pageRequest c 1, pageRequest c 2, pageRequest c 3])"
proof -
  have h1: "h1 = h @ [pageRequest c 1]"
    using ListMonitors_blank_log [OF assms(1)] by (simp add: clampPage_def)
  have h2: "h2 = h1 @ [pageRequest c 2]"
    using ListMonitors_blank_log [OF assms(4)] by (simp add: clampPage_def)
  have h3: "h3 = h2 @ [pageRequest c 3]"
    using ListMonitors_blank_log [OF assms(6)] by (simp add: clampPage_def)
  have i2: "incr 1 = 2" and i3: "incr 2 = 3" and i4: "incr 3 = 4"
    by (simp_all add: incr_def MaxInt_def)
  have third: "pagesLoop env c 3 3 h2 [withID a1, withID a2, withID a3, withID a4]
      = Some (([withID a1, withID a2, withID a3, withID a4, withID a5, withID a6], None), h3)"
    by (subst pagesLoop.simps)
      (simp add: assms(6,7) i4 appendMonitors_map pagesLoop_past)
  have second: "pagesLoop env c 2 3 h1 [withID a1, withID a2]
      = Some (([withID a1, withID a2, withID a3, withID a4, withID a5, withID a6], None), h3)"
    by (subst pagesLoop.simps) (simp add: assms(4,5) i3 appendMonitors_map third)
  have "ListAllMonitors env c h = Some ((map withID [a1, a2, a3, a4, a5, a6], None), h3)"
    by (simp add: ListAllMonitors_def assms(1,2,3) i2 appendMonitors_map second)
  with h1 h2 h3 show ?thesis by simp
qed

section \<open>The enumerator when a page fails\<close>

text \<open>
  C3. If the call for page 1 fails, \<open>ListAllMonitors\<close> returns that error with an empty
  result. If page 1 succeeds with a page count \<open>n > 1\<close>, the calls for pages \<open>2 \<dots> k - 1\<close>
  succeed and the call for page \<open>k\<close> (\<open>2 \<le> k \<le> n\<close>) fails, then \<open>ListAllMonitors\<close> stops
  there and returns the items of pages \<open>1 \<dots> k - 1\<close>, in order, together with the error of
  page \<open>k\<close>.
\<close>

theorem ListAllMonitors_partial_result:
  "(ListMonitors env0 c0 h0 1 Blanc Blanc = ((r0, Some e0), h0') \<longrightarrow>
      ListAllMonitors env0 c0 h0 = Some (([], Some e0), h0'))
   \<and> (ListMonitors env c h 1 Blanc Blanc = ((r 1, None), hs 1)
        \<and> GetLastPage env (ListWrapper.Pagination (r 1)) = (n, None)
        \<and> 1 < n \<and> 2 \<le> k \<and> k \<le> n
        \<and> (\<forall>j. 2 \<le> j \<and> j < k \<longrightarrow>
              ListMonitors env c (hs (j - 1)) j Blanc Blanc = ((r j, None), hs j))
        \<and> ListMonitors env c (hs (k - 1)) k Blanc Blanc = ((rk, Some e), hk) \<longrightarrow>
      ListAllMonitors env c h
        = Some ((concat (map (\<lambda>j. pageItems (r j)) [1..k - 1]), Some e), hk))"
proof (intro conjI impI)
  assume "ListMonitors env0 c0 h0 1 Blanc Blanc = ((r0, Some e0), h0')"
  then show "ListAllMonitors env0 c0 h0 = Some (([], Some e0), h0')"
    by (simp add: ListAllMonitors_def)
next
  assume a: "ListMonitors env c h 1 Blanc Blanc = ((r 1, None), hs 1)
        \<and> GetLastPage env (ListWrapper.Pagination (r 1)) = (n, None)
        \<and> 1 < n \<and> 2 \<le> k \<and> k \<le> n
        \<and> (\<forall>j. 2 \<le> j \<and> j < k \<longrightarrow>
              ListMonitors env c (hs (j - 1)) j Blanc Blanc = ((r j, None), hs j))
        \<and> ListMonitors env c (hs (k - 1)) k Blanc Blanc = ((rk, Some e), hk)"
  then have n: "n \<le> MaxInt" using GetLastPage_range by blast
  have "pagesLoop env c 2 n (hs (2 - 1)) (pageItems (r 1))
      = Some ((pageItems (r 1) @ concat (map (\<lambda>j. pageItems (r j)) [2..k - 1]), Some e), hk)"
    using a n by (intro pagesLoop_stops) auto
  moreover have "[1..k - 1] = 1 # [2..k - 1]" using a by (simp add: upto_first)
  moreover have "incr 1 = 2" by (simp add: incr_def MaxInt_def)
  ultimately show "ListAllMonitors env c h
        = Some ((concat (map (\<lambda>j. pageItems (r j)) [1..k - 1]), Some e), hk)"
    using a by (simp add: ListAllMonitors_def appendMonitors_map pageItems_def)
qed

lemma copyID_ID:
  "Monitor.ID (Attributes (ResponseWrapper.Data (copyID result)))
     = EntityWrapper.ID (ResponseWrapper.Data (copyID result))"
  by (simp add: copyID_def)

lemma GetMonitor_success:
  assumes "GetMonitor env c h id' = ((got, None), hg)"
  shows "\<exists>resp. http_Do env h (clientRequest c ''GET'' (MonitorID id') None) = Inr resp
    \<and> got = copyID (fst (json_DecodeMonitor env (Response.Body resp)))
    \<and> hg = h @ [clientRequest c ''GET'' (MonitorID id') None]"
  using assms
  by (auto simp: GetMonitor_def NewRequest_def clientRequest_def Let_def
      split: sum.splits option.splits prod.splits if_splits)

lemma CreateMonitor_success:
  assumes "CreateMonitor env c h monitor = ((created, None), hc)"
  shows "\<exists>body resp. json_Marshal env monitor = Inr body
    \<and> http_Do env h (clientRequest c ''POST'' Monitors (Some body)) = Inr resp
    \<and> StatusCode resp = 201
    \<and> created = copyID (fst (json_DecodeMonitor env (Response.Body resp)))
    \<and> hc = h @ [clientRequest c ''POST'' Monitors (Some body)]"
  using assms
  by (auto simp: CreateMonitor_def NewRequest_def clientRequest_def Let_def
      split: sum.splits option.splits prod.splits if_splits)

lemma UpdateMonitor_success:
  assumes "UpdateMonitor env c h id' monitor = ((updated, None), hu)"
  shows "\<exists>body resp. json_Marshal env monitor = Inr body
    \<and> http_Do env h (clientRequest c ''PATCH'' (MonitorID id') (Some body)) = Inr resp
    \<and> StatusCode resp = 200
    \<and> updated = copyID (fst (json_DecodeMonitor env (Response.Body resp)))
    \<and> hu = h @ [clientRequest c ''PATCH'' (MonitorID id') (Some body)]"
  using assms
  by (auto simp: UpdateMonitor_def NewRequest_def clientRequest_def Let_def
      split: sum.splits option.splits prod.splits if_splits)

lemma FindMonitor_success:
  assumes "FindMonitor env c h kind val = ((found, None), hf)"
  shows "\<exists>req. hf = h @ [req] \<and> found = map withID (pageData env h req)"
proof -
  obtain r err h1 where page: "ListMonitors env c h 1 kind val = ((r, err), h1)"
    by (metis prod.exhaust)
  with assms have err: "err = None" by (cases err) (simp_all add: FindMonitor_def)
  with assms page have "found = map withID (ListWrapper.Data r)" "hf = h1"
    by (simp_all add: FindMonitor_def appendMonitors_map)
  with ListMonitors_success [OF page [unfolded err]] show ?thesis by auto
qed

lemma withID_ID: "map Monitor.ID (map withID ws) = map EntityWrapper.ID ws"
  by (simp add: withID_def)

lemma withID_explicit:
  "map withID ws = map (\<lambda>mon. (Attributes mon)\<lparr>Monitor.ID := EntityWrapper.ID mon\<rparr>) ws"
  by (simp add: withID_def)

lemma copyID_decoded:
  "Monitor.ID (Attributes (ResponseWrapper.Data (copyID result)))
     = EntityWrapper.ID (ResponseWrapper.Data result)"
  "EntityWrapper.ID (ResponseWrapper.Data (copyID result))
     = EntityWrapper.ID (ResponseWrapper.Data result)"
  by (simp_all add: copyID_def)

section \<open>The identifier in the attributes\<close>

text \<open>
  C8. Whenever \<open>GetMonitor\<close>, \<open>CreateMonitor\<close> or \<open>UpdateMonitor\<close> succeeds, the returned
  envelope is the one decoded from the response with the decoded wrapper's identifier
  written into the \<open>ID\<close> of its attributes and nothing else changed: the \<open>ID\<close> of the
  returned attributes equals the identifier of the decoded wrapper, which is also the
  identifier of the returned wrapper. Whenever \<open>FindMonitor\<close> or \<open>ListAllMonitors\<close> succeeds, the returned list is, item
  by item and in order, the list of the wrappers received in answer to the requests
  issued, each item being the wrapper's attributes with the wrapper's identifier as
  \<open>ID\<close>.
\<close>

theorem identifier_copied:
  "(GetMonitor env c h id' = ((got, None), hg) \<longrightarrow>
      Monitor.ID (Attributes (ResponseWrapper.Data got)) = EntityWrapper.ID (ResponseWrapper.Data got)
      \<and> (\<exists>resp decoded.
            http_Do env h (clientRequest c ''GET'' (MonitorID id') None) = Inr resp
            \<and> decoded = fst (json_DecodeMonitor env (Response.Body resp))
            \<and> got = copyID decoded
            \<and> Monitor.ID (Attributes (ResponseWrapper.Data got))
                = EntityWrapper.ID (ResponseWrapper.Data decoded)
            \<and> got = decoded\<lparr>ResponseWrapper.Data := (ResponseWrapper.Data decoded)
                  \<lparr>Attributes := (Attributes (ResponseWrapper.Data decoded))
                    \<lparr>Monitor.ID := EntityWrapper.ID (ResponseWrapper.Data decoded)\<rparr>\<rparr>\<rparr>))
   \<and> (CreateMonitor env c h monitor = ((created, None), hc) \<longrightarrow>
      Monitor.ID (Attributes (ResponseWrapper.Data created))
        = EntityWrapper.ID (ResponseWrapper.Data created)
      \<and> (\<exists>body resp decoded.
            http_Do env h (clientRequest c ''POST'' Monitors (Some body)) = Inr resp
            \<and> decoded = fst (json_DecodeMonitor env (Response.Body resp))
            \<and> created = copyID decoded
            \<and> Monitor.ID (Attributes (ResponseWrapper.Data created))
                = EntityWrapper.ID (ResponseWrapper.Data decoded)
            \<and> created = decoded\<lparr>ResponseWrapper.Data := (ResponseWrapper.Data decoded)
                  \<lparr>Attributes := (Attributes (ResponseWrapper.Data decoded))
                    \<lparr>Monitor.ID := EntityWrapper.ID (ResponseWrapper.Data decoded)\<rparr>\<rparr>\<rparr>))
   \<and> (UpdateMonitor env c h id' monitor = ((updated, None), hu) \<longrightarrow>
      Monitor.ID (Attributes (ResponseWrapper.Data updated))
        = EntityWrapper.ID (ResponseWrapper.Data updated)
      \<and> (\<exists>body resp decoded.
            http_Do env h (clientRequest c ''PATCH'' (MonitorID id') (Some body)) = Inr resp
            \<and> decoded = fst (json_DecodeMonitor env (Response.Body resp))
            \<and> updated = copyID decoded
            \<and> Monitor.ID (Attributes (ResponseWrapper.Data updated))
                = EntityWrapper.ID (ResponseWrapper.Data decoded)
            \<and> updated = decoded\<lparr>ResponseWrapper.Data := (ResponseWrapper.Data decoded)
                  \<lparr>Attributes := (Attributes (ResponseWrapper.Data decoded))
                    \<lparr>Monitor.ID := EntityWrapper.ID (ResponseWrapper.Data decoded)\<rparr>\<rparr>\<rparr>))
   \<and> (FindMonitor env c h kind val = ((found, None), hf) \<longrightarrow>
      (\<exists>req. hf = h @ [req] \<and> found = map withID (pageData env h req)
         \<and> map Monitor.ID found = map EntityWrapper.ID (pageData env h req)
         \<and> found = map (\<lambda>mon. (Attributes mon)\<lparr>Monitor.ID := EntityWrapper.ID mon\<rparr>)
              (pageData env h req)))
   \<and> (ListAllMonitors env c h = Some ((ms, None), h') \<longrightarrow>
      (\<exists>reqs. h' = h @ reqs \<and> ms = map withID (received env h reqs)
         \<and> map Monitor.ID ms = map EntityWrapper.ID (received env h reqs)
         \<and> ms = map (\<lambda>mon. (Attributes mon)\<lparr>Monitor.ID := EntityWrapper.ID mon\<rparr>)
              (received env h reqs)))"
proof (intro conjI impI)
  assume a: "GetMonitor env c h id' = ((got, None), hg)"
  from GetMonitor_success [OF a]
  show "Monitor.ID (Attributes (ResponseWrapper.Data got)) = EntityWrapper.ID (ResponseWrapper.Data got)"
    by (auto simp: copyID_ID)
  from GetMonitor_success [OF a] obtain resp where
    "http_Do env h (clientRequest c ''GET'' (MonitorID id') None) = Inr resp"
    "got = copyID (fst (json_DecodeMonitor env (Response.Body resp)))" by blast
  then show "\<exists>resp decoded.
      http_Do env h (clientRequest c ''GET'' (MonitorID id') None) = Inr resp
      \<and> decoded = fst (json_DecodeMonitor env (Response.Body resp))
      \<and> got = copyID decoded
      \<and> Monitor.ID (Attributes (ResponseWrapper.Data got))
          = EntityWrapper.ID (ResponseWrapper.Data decoded)
      \<and> got = decoded\<lparr>ResponseWrapper.Data := (ResponseWrapper.Data decoded)
            \<lparr>Attributes := (Attributes (ResponseWrapper.Data decoded))
              \<lparr>Monitor.ID := EntityWrapper.ID (ResponseWrapper.Data decoded)\<rparr>\<rparr>\<rparr>"
    by (intro exI [of _ resp] exI [of _ "fst (json_DecodeMonitor env (Response.Body resp))"])
      (simp add: copyID_decoded copyID_def)
next
  assume a: "CreateMonitor env c h monitor = ((created, None), hc)"
  from CreateMonitor_success [OF a]
  show "Monitor.ID (Attributes (ResponseWrapper.Data created))
      = EntityWrapper.ID (ResponseWrapper.Data created)"
    by (auto simp: copyID_ID)
  from CreateMonitor_success [OF a] obtain body resp where
    "http_Do env h (clientRequest c ''POST'' Monitors (Some body)) = Inr resp"
    "created = copyID (fst (json_DecodeMonitor env (Response.Body resp)))" by blast
  then show "\<exists>body resp decoded.
      http_Do env h (clientRequest c ''POST'' Monitors (Some body)) = Inr resp
      \<and> decoded = fst (json_DecodeMonitor env (Response.Body resp))
      \<and> created = copyID decoded
      \<and> Monitor.ID (Attributes (ResponseWrapper.Data created))
          = EntityWrapper.ID (ResponseWrapper.Data decoded)
      \<and> created = decoded\<lparr>ResponseWrapper.Data := (ResponseWrapper.Data decoded)
            \<lparr>Attributes := (Attributes (ResponseWrapper.Data decoded))
              \<lparr>Monitor.ID := EntityWrapper.ID (ResponseWrapper.Data decoded)\<rparr>\<rparr>\<rparr>"
    by (intro exI [of _ body] exI [of _ resp]
        exI [of _ "fst (json_DecodeMonitor env (Response.Body resp))"])
      (simp add: copyID_decoded copyID_def)
next
  assume a: "UpdateMonitor env c h id' monitor = ((updated, None), hu)"
  from UpdateMonitor_success [OF a]
  show "Monitor.ID (Attributes (ResponseWrapper.Data updated))
      = EntityWrapper.ID (ResponseWrapper.Data updated)"
    by (auto simp: copyID_ID)
  from UpdateMonitor_success [OF a] obtain body resp where
    "http_Do env h (clientRequest c ''PATCH'' (MonitorID id') (Some body)) = Inr resp"
    "updated = copyID (fst (json_DecodeMonitor env (Response.Body resp)))" by blast
  then show "\<exists>body resp decoded.
      http_Do env h (clientRequest c ''PATCH'' (MonitorID id') (Some body)) = Inr resp
      \<and> decoded = fst (json_DecodeMonitor env (Response.Body resp))
      \<and> updated = copyID decoded
      \<and> Monitor.ID (Attributes (ResponseWrapper.Data updated))
          = EntityWrapper.ID (ResponseWrapper.Data decoded)
      \<and> updated = decoded\<lparr>ResponseWrapper.Data := (ResponseWrapper.Data decoded)
            \<lparr>Attributes := (Attributes (ResponseWrapper.Data decoded))
              \<lparr>Monitor.ID := EntityWrapper.ID (ResponseWrapper.Data decoded)\<rparr>\<rparr>\<rparr>"
    by (intro exI [of _ body] exI [of _ resp]
        exI [of _ "fst (json_DecodeMonitor env (Response.Body resp))"])
      (simp add: copyID_decoded copyID_def)
next
  assume "FindMonitor env c h kind val = ((found, None), hf)"
  from FindMonitor_success [OF this]
  show "\<exists>req. hf = h @ [req] \<and> found = map withID (pageData env h req)
      \<and> map Monitor.ID found = map EntityWrapper.ID (pageData env h req)
      \<and> found = map (\<lambda>mon. (Attributes mon)\<lparr>Monitor.ID := EntityWrapper.ID mon\<rparr>)
           (pageData env h req)"
    using withID_ID withID_explicit by metis
next
  assume "ListAllMonitors env c h = Some ((ms, None), h')"
  from ListAllMonitors_received [OF this]
  show "\<exists>reqs. h' = h @ reqs \<and> ms = map withID (received env h reqs)
      \<and> map Monitor.ID ms = map EntityWrapper.ID (received env h reqs)
      \<and> ms = map (\<lambda>mon. (Attributes mon)\<lparr>Monitor.ID := EntityWrapper.ID mon\<rparr>)
           (received env h reqs)"
    using withID_ID withID_explicit by metis
qed

lemmas page_simps = GetLastPage_def sampleLinks_def Query_def ParseQuery_def parsePair_def
  Atoi_def ParseInt_def

lemma threePages_last:
  "GetLastPage (sampleEnv table) (ListWrapper.Pagination (fst (sampleDecodeMonitors ''page 1 of 3'')))
     = (3, None)"
  by (simp add: page_simps eval_simps)

lemma threePages_1:
  "ListMonitors (sampleEnv (threePages @ rest)) sampleClient h 1 Blanc Blanc
     = ((fst (sampleDecodeMonitors ''page 1 of 3''), None), h @ [pageRequest sampleClient 1])"
  by (simp add: eval_simps)

lemma threePages_2:
  "ListMonitors (sampleEnv (threePages @ rest)) sampleClient h 2 Blanc Blanc
     = ((fst (sampleDecodeMonitors ''page 2 of 3''), None), h @ [pageRequest sampleClient 2])"
  by (simp add: eval_simps)

lemma threePages_3:
  "ListMonitors (sampleEnv (threePages @ rest)) sampleClient h 3 Blanc Blanc
     = ((fst (sampleDecodeMonitors ''page 3 of 3''), None), h @ [pageRequest sampleClient 3])"
  by (simp add: eval_simps)

theorem ListAllMonitors_three_pages_witness:
  "ListAllMonitors (sampleEnv threePages) sampleClient []
     = Some ((map withID [sampleEntity ''11'' ''a'', sampleEntity ''12'' ''b'',
                sampleEntity ''21'' ''c'', sampleEntity ''22'' ''d'',
                sampleEntity ''31'' ''e'', sampleEntity ''32'' ''f''], None),
          [pageRequest sampleClient 1, pageRequest sampleClient 2, pageRequest sampleClient 3])"
proof -
  have d1: "ListWrapper.Data (fst (sampleDecodeMonitors ''page 1 of 3''))
      = [sampleEntity ''11'' ''a'', sampleEntity ''12'' ''b'']"
    and d2: "ListWrapper.Data (fst (sampleDecodeMonitors ''page 2 of 3''))
      = [sampleEntity ''21'' ''c'', sampleEntity ''22'' ''d'']"
    and d3: "ListWrapper.Data (fst (sampleDecodeMonitors ''page 3 of 3''))
      = [sampleEntity ''31'' ''e'', sampleEntity ''32'' ''f'']"
    by (simp_all add: sampleDecodeMonitors_def)
  from ListAllMonitors_three_pages [OF threePages_1 d1 threePages_last threePages_2 d2
      threePages_3 d3, of "[]" "[]"]
  show ?thesis by simp
qed

lemma twoOfThree_1:
  "ListMonitors (sampleEnv twoOfThree) sampleClient h 1 Blanc Blanc
     = ((fst (sampleDecodeMonitors ''page 1 of 3''), None), h @ [pageRequest sampleClient 1])"
  by (simp add: eval_simps)

lemma twoOfThree_2:
  "ListMonitors (sampleEnv twoOfThree) sampleClient h 2 Blanc Blanc
     = ((fst (sampleDecodeMonitors ''page 2 of 3''), None), h @ [pageRequest sampleClient 2])"
  by (simp add: eval_simps)

lemma twoOfThree_3:
  "ListMonitors (sampleEnv twoOfThree) sampleClient h 3 Blanc Blanc
     = ((zeroMonitorsResponse, Some (Errorf ''failed to execute request: %v''
          [OpError (Some (LibError ''connection refused''))])),
        h @ [pageRequest sampleClient 3])"
  by (simp add: eval_simps)

lemma oneOfThree_1:
  "ListMonitors (sampleEnv oneOfThree) sampleClient h 1 Blanc Blanc
     = ((fst (sampleDecodeMonitors ''page 1 of 3''), None), h @ [pageRequest sampleClient 1])"
  by (simp add: eval_simps)

lemma oneOfThree_2:
  "ListMonitors (sampleEnv oneOfThree) sampleClient h 2 Blanc Blanc
     = ((zeroMonitorsResponse, Some (Errorf ''failed to execute request: %v''
          [OpError (Some (LibError ''connection refused''))])),
        h @ [pageRequest sampleClient 2])"
  by (simp add: eval_simps)

lemma refused_1:
  "ListMonitors (sampleEnv []) sampleClient h 1 Blanc Blanc
     = ((zeroMonitorsResponse, Some (Errorf ''failed to execute request: %v''
          [OpError (Some (LibError ''connection refused''))])),
        h @ [pageRequest sampleClient 1])"
  by (simp add: eval_simps)

theorem ListAllMonitors_partial_result_witness:
  "ListAllMonitors (sampleEnv []) sampleClient []
     = Some (([], Some (Errorf ''failed to execute request: %v''
          [OpError (Some (LibError ''connection refused''))])),
        [pageRequest sampleClient 1])
   \<and> ListAllMonitors (sampleEnv twoOfThree) sampleClient []
     = Some ((map withID [sampleEntity ''11'' ''a'', sampleEntity ''12'' ''b'',
                sampleEntity ''21'' ''c'', sampleEntity ''22'' ''d''],
              Some (Errorf ''failed to execute request: %v''
                [OpError (Some (LibError ''connection refused''))])),
          [pageRequest sampleClient 1, pageRequest sampleClient 2, pageRequest sampleClient 3])
   \<and> ListAllMonitors (sampleEnv oneOfThree) sampleClient []
     = Some ((map withID [sampleEntity ''11'' ''a'', sampleEntity ''12'' ''b''],
              Some (Errorf ''failed to execute request: %v''
                [OpError (Some (LibError ''connection refused''))])),
          [pageRequest sampleClient 1, pageRequest sampleClient 2])"
proof -
  let ?r = "\<lambda>j::int. fst (sampleDecodeMonitors
    (if j = 1 then ''page 1 of 3'' else ''page 2 of 3''))"
  let ?hs = "\<lambda>j::int. if j = 1 then [pageRequest sampleClient 1]
    else [pageRequest sampleClient 1, pageRequest sampleClient 2]"
  have first: "ListMonitors (sampleEnv twoOfThree) sampleClient [] 1 Blanc Blanc
      = ((?r 1, None), ?hs 1)"
    using twoOfThree_1 [of "[]"] by simp
  have last: "GetLastPage (sampleEnv twoOfThree) (ListWrapper.Pagination (?r 1)) = (3, None)"
    using threePages_last [of twoOfThree] by simp
  have between: "\<forall>j. 2 \<le> j \<and> j < 3 \<longrightarrow>
      ListMonitors (sampleEnv twoOfThree) sampleClient (?hs (j - 1)) j Blanc Blanc
        = ((?r j, None), ?hs j)"
  proof (intro allI impI)
    fix j :: int
    assume "2 \<le> j \<and> j < 3"
    then have "j = 2" by simp
    then show "ListMonitors (sampleEnv twoOfThree) sampleClient (?hs (j - 1)) j Blanc Blanc
        = ((?r j, None), ?hs j)"
      using twoOfThree_2 [of "[pageRequest sampleClient 1]"] by simp
  qed
  have third: "ListMonitors (sampleEnv twoOfThree) sampleClient (?hs (3 - 1)) 3 Blanc Blanc
      = ((zeroMonitorsResponse, Some (Errorf ''failed to execute request: %v''
            [OpError (Some (LibError ''connection refused''))])),
         [pageRequest sampleClient 1, pageRequest sampleClient 2, pageRequest sampleClient 3])"
    using twoOfThree_3 [of "[pageRequest sampleClient 1, pageRequest sampleClient 2]"] by simp
  have items: "concat (map (\<lambda>j. pageItems (?r j)) [1..3 - 1])
      = map withID [sampleEntity ''11'' ''a'', sampleEntity ''12'' ''b'',
          sampleEntity ''21'' ''c'', sampleEntity ''22'' ''d'']"
    by (simp add: pageItems_def sampleDecodeMonitors_def upto_first)
  from ListAllMonitors_partial_result [of "sampleEnv []" sampleClient "[]" zeroMonitorsResponse
      "Errorf ''failed to execute request: %v'' [OpError (Some (LibError ''connection refused''))]"
      "[pageRequest sampleClient 1]" "sampleEnv twoOfThree" sampleClient "[]" ?r ?hs 3 3
      zeroMonitorsResponse
      "Errorf ''failed to execute request: %v'' [OpError (Some (LibError ''connection refused''))]"
      "[pageRequest sampleClient 1, pageRequest sampleClient 2, pageRequest sampleClient 3]"]
    refused_1 [of "[]"] first last between third items
  have page3: "ListAllMonitors (sampleEnv []) sampleClient []
     = Some (([], Some (Errorf ''failed to execute request: %v''
          [OpError (Some (LibError ''connection refused''))])),
        [pageRequest sampleClient 1])
   \<and> ListAllMonitors (sampleEnv twoOfThree) sampleClient []
     = Some ((map withID [sampleEntity ''11'' ''a'', sampleEntity ''12'' ''b'',
                sampleEntity ''21'' ''c'', sampleEntity ''22'' ''d''],
              Some (Errorf ''failed to execute request: %v''
                [OpError (Some (LibError ''connection refused''))])),
          [pageRequest sampleClient 1, pageRequest sampleClient 2, pageRequest sampleClient 3])"
    by simp
  have first': "ListMonitors (sampleEnv oneOfThree) sampleClient [] 1 Blanc Blanc
      = ((?r 1, None), ?hs 1)"
    using oneOfThree_1 [of "[]"] by simp
  have last': "GetLastPage (sampleEnv oneOfThree) (ListWrapper.Pagination (?r 1)) = (3, None)"
    using threePages_last [of oneOfThree] by simp
  have none: "\<forall>j. 2 \<le> j \<and> j < 2 \<longrightarrow>
      ListMonitors (sampleEnv oneOfThree) sampleClient (?hs (j - 1)) j Blanc Blanc
        = ((?r j, None), ?hs j)"
  proof (intro allI impI)
    fix j :: int
    assume "2 \<le> j \<and> j < 2"
    then have False by linarith
    then show "ListMonitors (sampleEnv oneOfThree) sampleClient (?hs (j - 1)) j Blanc Blanc
        = ((?r j, None), ?hs j)" ..
  qed
  have second: "ListMonitors (sampleEnv oneOfThree) sampleClient (?hs (2 - 1)) 2 Blanc Blanc
      = ((zeroMonitorsResponse, Some (Errorf ''failed to execute request: %v''
            [OpError (Some (LibError ''connection refused''))])),
         [pageRequest sampleClient 1, pageRequest sampleClient 2])"
    using oneOfThree_2 [of "[pageRequest sampleClient 1]"] by simp
  have items': "concat (map (\<lambda>j. pageItems (?r j)) [1..2 - 1])
      = map withID [sampleEntity ''11'' ''a'', sampleEntity ''12'' ''b'']"
    by (simp add: pageItems_def sampleDecodeMonitors_def upto_first)
  from ListAllMonitors_partial_result [of "sampleEnv []" sampleClient "[]" zeroMonitorsResponse
      "Errorf ''failed to execute request: %v'' [OpError (Some (LibError ''connection refused''))]"
      "[pageRequest sampleClient 1]" "sampleEnv oneOfThree" sampleClient "[]" ?r ?hs 3 2
      zeroMonitorsResponse
      "Errorf ''failed to execute request: %v'' [OpError (Some (LibError ''connection refused''))]"
      "[pageRequest sampleClient 1, pageRequest sampleClient 2]"]
    refused_1 [of "[]"] first' last' none second items'
  have page2: "ListAllMonitors (sampleEnv oneOfThree) sampleClient []
     = Some ((map withID [sampleEntity ''11'' ''a'', sampleEntity ''12'' ''b''],
              Some (Errorf ''failed to execute request: %v''
                [OpError (Some (LibError ''connection refused''))])),
          [pageRequest sampleClient 1, pageRequest sampleClient 2])"
    by simp
  from page3 page2 show ?thesis by simp
qed

lemmas crud_simps = GetMonitor_def CreateMonitor_def UpdateMonitor_def DeleteMonitor_def
  FindMonitor_def sampleMonitor_def

lemma sample_data:
  "ListWrapper.Data (fst (sampleDecodeMonitors ''page 1 of 3''))
     = [sampleEntity ''11'' ''a'', sampleEntity ''12'' ''b'']"
  "ListWrapper.Data (fst (sampleDecodeMonitors ''page 2 of 3''))
     = [sampleEntity ''21'' ''c'', sampleEntity ''22'' ''d'']"
  "ListWrapper.Data (fst (sampleDecodeMonitors ''page 3 of 3''))
     = [sampleEntity ''31'' ''e'', sampleEntity ''32'' ''f'']"
  by (simp_all add: sampleDecodeMonitors_def)

lemma incr_small: "incr 1 = 2" "incr 2 = 3" "incr 3 = 4"
  by (simp_all add: incr_def MaxInt_def)

lemma threePages_all:
  "ListAllMonitors (sampleEnv (threePages @ rest)) sampleClient []
     = Some (([withID (sampleEntity ''11'' ''a''), withID (sampleEntity ''12'' ''b''),
         withID (sampleEntity ''21'' ''c''), withID (sampleEntity ''22'' ''d''),
         withID (sampleEntity ''31'' ''e''), withID (sampleEntity ''32'' ''f'')], None),
         [pageRequest sampleClient 1, pageRequest sampleClient 2, pageRequest sampleClient 3])"
proof -
  have third: "pagesLoop (sampleEnv (threePages @ rest)) sampleClient 3 3
      [pageRequest sampleClient 1, pageRequest sampleClient 2]
      [withID (sampleEntity ''11'' ''a''), withID (sampleEntity ''12'' ''b''),
       withID (sampleEntity ''21'' ''c''), withID (sampleEntity ''22'' ''d'')]
    = Some (([withID (sampleEntity ''11'' ''a''), withID (sampleEntity ''12'' ''b''),
       withID (sampleEntity ''21'' ''c''), withID (sampleEntity ''22'' ''d''),
       withID (sampleEntity ''31'' ''e''), withID (sampleEntity ''32'' ''f'')], None),
       [pageRequest sampleClient 1, pageRequest sampleClient 2, pageRequest sampleClient 3])"
    using threePages_3 [of rest "[pageRequest sampleClient 1, pageRequest sampleClient 2]"]
    by (subst pagesLoop.simps)
      (simp add: sample_data incr_small appendMonitors_map pagesLoop_past)
  have second: "pagesLoop (sampleEnv (threePages @ rest)) sampleClient 2 3
      [pageRequest sampleClient 1]
      [withID (sampleEntity ''11'' ''a''), withID (sampleEntity ''12'' ''b'')]
    = Some (([withID (sampleEntity ''11'' ''a''), withID (sampleEntity ''12'' ''b''),
       withID (sampleEntity ''21'' ''c''), withID (sampleEntity ''22'' ''d''),
       withID (sampleEntity ''31'' ''e''), withID (sampleEntity ''32'' ''f'')], None),
       [pageRequest sampleClient 1, pageRequest sampleClient 2, pageRequest sampleClient 3])"
    using threePages_2 [of rest "[pageRequest sampleClient 1]"]
    by (subst pagesLoop.simps) (simp add: sample_data incr_small appendMonitors_map third)
  show ?thesis
    using threePages_1 [of rest "[]"] threePages_last [of "threePages @ rest"]
    by (simp add: ListAllMonitors_def sample_data incr_small appendMonitors_map second)
qed

lemma oneMonitor_get:
  "GetMonitor (sampleEnv (threePages @ oneMonitor)) sampleClient [] ''11''
     = ((copyID (fst (sampleDecodeMonitor ''monitor 11'')), None),
        [clientRequest sampleClient ''GET'' (MonitorID ''11'') None])"
  by (simp add: crud_simps eval_simps)

lemma oneMonitor_create:
  "CreateMonitor (sampleEnv (threePages @ oneMonitor)) sampleClient [] (sampleMonitor ''a'')
     = ((copyID (fst (sampleDecodeMonitor ''monitor 11'')), None),
        [clientRequest sampleClient ''POST'' Monitors (Some ''a'')])"
  by (simp add: crud_simps eval_simps)

lemma oneMonitor_update:
  "UpdateMonitor (sampleEnv (threePages @ oneMonitor)) sampleClient [] ''11'' (sampleMonitor ''a'')
     = ((copyID (fst (sampleDecodeMonitor ''monitor 11'')), None),
        [clientRequest sampleClient ''PATCH'' (MonitorID ''11'') (Some ''a'')])"
  by (simp add: crud_simps eval_simps)

lemma oneMonitor_find:
  "FindMonitor (sampleEnv (threePages @ oneMonitor)) sampleClient [] ''pronounceable_name'' ''e''
     = (([withID (sampleEntity ''31'' ''e'')], None),
        [listRequest sampleClient ''page=1&per_page=250&pronounceable_name=e''])"
  by (simp add: crud_simps eval_simps appendMonitors_map)

theorem identifier_copied_witness:
  "GetMonitor (sampleEnv (threePages @ oneMonitor)) sampleClient [] ''11''
     = ((copyID (fst (sampleDecodeMonitor ''monitor 11'')), None),
        [clientRequest sampleClient ''GET'' (MonitorID ''11'') None])
   \<and> CreateMonitor (sampleEnv (threePages @ oneMonitor)) sampleClient [] (sampleMonitor ''a'')
     = ((copyID (fst (sampleDecodeMonitor ''monitor 11'')), None),
        [clientRequest sampleClient ''POST'' Monitors (Some ''a'')])
   \<and> UpdateMonitor (sampleEnv (threePages @ oneMonitor)) sampleClient [] ''11'' (sampleMonitor ''a'')
     = ((copyID (fst (sampleDecodeMonitor ''monitor 11'')), None),
        [clientRequest sampleClient ''PATCH'' (MonitorID ''11'') (Some ''a'')])
   \<and> Monitor.ID (Attributes (ResponseWrapper.Data (copyID (fst (sampleDecodeMonitor ''monitor 11'')))))
     = EntityWrapper.ID (ResponseWrapper.Data (copyID (fst (sampleDecodeMonitor ''monitor 11''))))
   \<and> EntityWrapper.ID (ResponseWrapper.Data (copyID (fst (sampleDecodeMonitor ''monitor 11''))))
     = ''11''
   \<and> Monitor.ID (Attributes (ResponseWrapper.Data (fst (sampleDecodeMonitor ''monitor 11''))))
     = []
   \<and> EntityWrapper.ID (ResponseWrapper.Data (fst (sampleDecodeMonitor ''monitor 11''))) = ''11''
   \<and> (\<exists>resp. http_Do (sampleEnv (threePages @ oneMonitor)) []
          (clientRequest sampleClient ''GET'' (MonitorID ''11'') None) = Inr resp
        \<and> Monitor.ID (Attributes (ResponseWrapper.Data
              (fst (fst (GetMonitor (sampleEnv (threePages @ oneMonitor)) sampleClient [] ''11'')))))
            = EntityWrapper.ID (ResponseWrapper.Data
                (fst (json_DecodeMonitor (sampleEnv (threePages @ oneMonitor))
                  (Response.Body resp)))))
   \<and> Monitor.ID (Attributes (ResponseWrapper.Data
         (fst (fst (GetMonitor (sampleEnv (threePages @ oneMonitor)) sampleClient [] ''11'')))))
       = ''11''
   \<and> FindMonitor (sampleEnv (threePages @ oneMonitor)) sampleClient [] ''pronounceable_name'' ''e''
     = (([withID (sampleEntity ''31'' ''e'')], None),
        [listRequest sampleClient ''page=1&per_page=250&pronounceable_name=e''])
   \<and> (\<exists>req. map Monitor.ID [withID (sampleEntity ''31'' ''e'')]
          = map EntityWrapper.ID (pageData (sampleEnv (threePages @ oneMonitor)) [] req))
   \<and> ListAllMonitors (sampleEnv (threePages @ oneMonitor)) sampleClient []
     = Some (([withID (sampleEntity ''11'' ''a''), withID (sampleEntity ''12'' ''b''),
         withID (sampleEntity ''21'' ''c''), withID (sampleEntity ''22'' ''d''),
         withID (sampleEntity ''31'' ''e''), withID (sampleEntity ''32'' ''f'')], None),
         [pageRequest sampleClient 1, pageRequest sampleClient 2, pageRequest sampleClient 3])
   \<and> (\<exists>reqs. map Monitor.ID [withID (sampleEntity ''11'' ''a''), withID (sampleEntity ''12'' ''b''),
         withID (sampleEntity ''21'' ''c''), withID (sampleEntity ''22'' ''d''),
         withID (sampleEntity ''31'' ''e''), withID (sampleEntity ''32'' ''f'')]
          = map EntityWrapper.ID (received (sampleEnv (threePages @ oneMonitor)) [] reqs))"
proof -
  note facts = identifier_copied [of "sampleEnv (threePages @ oneMonitor)" sampleClient "[]" "''11''"
      "copyID (fst (sampleDecodeMonitor ''monitor 11''))"
      "[clientRequest sampleClient ''GET'' (MonitorID ''11'') None]"
      "sampleMonitor ''a''"
      "copyID (fst (sampleDecodeMonitor ''monitor 11''))"
      "[clientRequest sampleClient ''POST'' Monitors (Some ''a'')]"
      "copyID (fst (sampleDecodeMonitor ''monitor 11''))"
      "[clientRequest sampleClient ''PATCH'' (MonitorID ''11'') (Some ''a'')]"
      "''pronounceable_name''" "''e''"
      "[withID (sampleEntity ''31'' ''e'')]"
      "[listRequest sampleClient ''page=1&per_page=250&pronounceable_name=e'']"
      "[withID (sampleEntity ''11'' ''a''), withID (sampleEntity ''12'' ''b''),
         withID (sampleEntity ''21'' ''c''), withID (sampleEntity ''22'' ''d''),
         withID (sampleEntity ''31'' ''e''), withID (sampleEntity ''32'' ''f'')]"
      "[pageRequest sampleClient 1, pageRequest sampleClient 2, pageRequest sampleClient 3]"]
  have copied: "Monitor.ID (Attributes (ResponseWrapper.Data
        (copyID (fst (sampleDecodeMonitor ''monitor 11'')))))
      = EntityWrapper.ID (ResponseWrapper.Data (copyID (fst (sampleDecodeMonitor ''monitor 11''))))"
    using facts oneMonitor_get by blast
  have eleven: "EntityWrapper.ID (ResponseWrapper.Data
        (copyID (fst (sampleDecodeMonitor ''monitor 11'')))) = ''11''"
    by (simp add: copyID_def sampleDecodeMonitor_def sampleEntity_def)
  have wire: "Monitor.ID (Attributes (ResponseWrapper.Data
        (fst (sampleDecodeMonitor ''monitor 11'')))) = []"
    "EntityWrapper.ID (ResponseWrapper.Data (fst (sampleDecodeMonitor ''monitor 11''))) = ''11''"
    by (simp_all add: sampleDecodeMonitor_def sampleEntity_def sampleMonitor_def zeroMonitor_def)
  have decoded: "\<exists>resp. http_Do (sampleEnv (threePages @ oneMonitor)) []
          (clientRequest sampleClient ''GET'' (MonitorID ''11'') None) = Inr resp
        \<and> Monitor.ID (Attributes (ResponseWrapper.Data
              (fst (fst (GetMonitor (sampleEnv (threePages @ oneMonitor)) sampleClient [] ''11'')))))
            = EntityWrapper.ID (ResponseWrapper.Data
                (fst (json_DecodeMonitor (sampleEnv (threePages @ oneMonitor))
                  (Response.Body resp))))"
    using facts oneMonitor_get by auto
  have response: "http_Do (sampleEnv (threePages @ oneMonitor)) []
          (clientRequest sampleClient ''GET'' (MonitorID ''11'') None)
      = Inr \<lparr>StatusCode = 200, Status = ''200 OK'', Response.Body = ''monitor 11''\<rparr>"
    "json_DecodeMonitor (sampleEnv (threePages @ oneMonitor)) ''monitor 11''
      = sampleDecodeMonitor ''monitor 11''"
    by (simp_all add: eval_simps)
  have visible: "Monitor.ID (Attributes (ResponseWrapper.Data
         (fst (fst (GetMonitor (sampleEnv (threePages @ oneMonitor)) sampleClient [] ''11'')))))
       = ''11''"
    using decoded response wire by auto
  have found: "\<exists>req. map Monitor.ID [withID (sampleEntity ''31'' ''e'')]
      = map EntityWrapper.ID (pageData (sampleEnv (threePages @ oneMonitor)) [] req)"
    using facts oneMonitor_find by blast
  have listed: "\<exists>reqs. map Monitor.ID [withID (sampleEntity ''11'' ''a''), withID (sampleEntity ''12'' ''b''),
         withID (sampleEntity ''21'' ''c''), withID (sampleEntity ''22'' ''d''),
         withID (sampleEntity ''31'' ''e''), withID (sampleEntity ''32'' ''f'')]
      = map EntityWrapper.ID (received (sampleEnv (threePages @ oneMonitor)) [] reqs)"
    using facts threePages_all [of oneMonitor] by blast
  from copied eleven wire decoded visible found listed oneMonitor_get oneMonitor_create
    oneMonitor_update oneMonitor_find threePages_all [of oneMonitor]
  show ?thesis by blast
qed

section \<open>The errors field\<close>

text \<open>
  C7. When the request was sent, the status is the expected one (for create and update)
  and the body decoded, \<open>ListMonitors\<close>, \<open>GetMonitor\<close>, \<open>CreateMonitor\<close> and \<open>UpdateMonitor\<close>
  fail exactly when the decoded \<open>errors\<close> field is non-empty in the sense of
  \<open>funk.NotEmpty\<close>, and the error then carries that field; when the field is absent or
  empty they return no error.
\<close>

theorem errors_field_decides:
  "(listParams page filterType filterValue = Inr params
      \<and> url_Parse env (Monitors @ ''?'' @ Encode params) = Inr ul
      \<and> http_Do env h (listRequest c (Encode params)) = Inr respl
      \<and> json_DecodeMonitors env (Response.Body respl) = (listed, None) \<longrightarrow>
    ListMonitors env c h page filterType filterValue
      = ((listed,
          if NotEmptyAny (ListWrapper.Errors listed)
          then Some (Errorf ''failed to list monitors: %v'' [OpAny (ListWrapper.Errors listed)])
          else None),
         h @ [listRequest c (Encode params)]))
   \<and> (url_Parse env (MonitorID id') = Inr ug
      \<and> http_Do env h (clientRequest c ''GET'' (MonitorID id') None) = Inr respg
      \<and> json_DecodeMonitor env (Response.Body respg) = (got, None) \<longrightarrow>
    GetMonitor env c h id'
      = ((if NotEmptyAny (ResponseWrapper.Errors got) then got else copyID got,
          if NotEmptyAny (ResponseWrapper.Errors got)
          then Some (Errorf ''failed to get monitor: %v'' [OpAny (ResponseWrapper.Errors got)])
          else None),
         h @ [clientRequest c ''GET'' (MonitorID id') None]))
   \<and> (json_Marshal env monitor = Inr body
      \<and> url_Parse env Monitors = Inr uc
      \<and> http_Do env h (clientRequest c ''POST'' Monitors (Some body)) = Inr respc
      \<and> StatusCode respc = 201
      \<and> json_DecodeMonitor env (Response.Body respc) = (created, None) \<longrightarrow>
    CreateMonitor env c h monitor
      = ((if NotEmptyAny (ResponseWrapper.Errors created) then created else copyID created,
          if NotEmptyAny (ResponseWrapper.Errors created)
          then Some (Errorf ''failed to list monitors: %v''
            [OpAny (ResponseWrapper.Errors created)])
          else None),
         h @ [clientRequest c ''POST'' Monitors (Some body)]))
   \<and> (json_Marshal env monitor' = Inr body'
      \<and> url_Parse env (MonitorID id'') = Inr uu
      \<and> http_Do env h (clientRequest c ''PATCH'' (MonitorID id'') (Some body')) = Inr respu
      \<and> StatusCode respu = 200
      \<and> json_DecodeMonitor env (Response.Body respu) = (updated, None) \<longrightarrow>
    UpdateMonitor env c h id'' monitor'
      = ((if NotEmptyAny (ResponseWrapper.Errors updated) then updated else copyID updated,
          if NotEmptyAny (ResponseWrapper.Errors updated)
          then Some (Errorf ''failed to update monitor: %v''
            [OpAny (ResponseWrapper.Errors updated)])
          else None),
         h @ [clientRequest c ''PATCH'' (MonitorID id'') (Some body')]))"
  by (simp add: ListMonitors_def GetMonitor_def CreateMonitor_def UpdateMonitor_def
      NewRequest_def listRequest_def clientRequest_def)

theorem errors_field_decides_witness:
  "ListMonitors (sampleEnv withErrors) sampleClient [] 1 Blanc Blanc
      = ((fst (sampleDecodeMonitors ''errors''),
          Some (Errorf ''failed to list monitors: %v'' [OpAny (AnyString ''Invalid API token'')])),
         [pageRequest sampleClient 1])
   \<and> CreateMonitor (sampleEnv withErrors) sampleClient [] (sampleMonitor ''a'')
      = ((fst (sampleDecodeMonitor ''errors''),
          Some (Errorf ''failed to list monitors: %v'' [OpAny (AnyString ''Invalid API token'')])),
         [clientRequest sampleClient ''POST'' Monitors (Some ''a'')])
   \<and> GetMonitor (sampleEnv withErrors) sampleClient [] ''11''
      = ((copyID (fst (sampleDecodeMonitor ''monitor 11'')), None),
         [clientRequest sampleClient ''GET'' (MonitorID ''11'') None])
   \<and> UpdateMonitor (sampleEnv withErrors) sampleClient [] ''11'' (sampleMonitor ''a'')
      = ((copyID (fst (sampleDecodeMonitor ''monitor 11'')), None),
         [clientRequest sampleClient ''PATCH'' (MonitorID ''11'') (Some ''a'')])"
proof -
  have params: "listParams 1 Blanc Blanc = Inr [(''per_page'', [''250'']), (''page'', [''1''])]"
    by (simp add: eval_simps)
  have query: "Encode [(''per_page'', [''250'']), (''page'', [''1''])] = ''page=1&per_page=250''"
    by (simp add: eval_simps)
  have parses: "url_Parse (sampleEnv withErrors) (Monitors @ ''?'' @ ''page=1&per_page=250'')
      = Inr \<lparr>Scheme = ''https'', Opaque = [], Host = ''uptime.betterstack.com'',
          Path = ''/api/v2/monitors'', RawQuery = ''page=1&per_page=250'', Fragment = []\<rparr>"
    and parses1: "url_Parse (sampleEnv withErrors) (MonitorID ''11'')
      = Inr \<lparr>Scheme = ''https'', Opaque = [], Host = ''uptime.betterstack.com'',
          Path = ''/api/v2/monitors/11'', RawQuery = [], Fragment = []\<rparr>"
    and parses2: "url_Parse (sampleEnv withErrors) Monitors
      = Inr \<lparr>Scheme = ''https'', Opaque = [], Host = ''uptime.betterstack.com'',
          Path = ''/api/v2/monitors'', RawQuery = [], Fragment = []\<rparr>"
    by (simp_all add: eval_simps)
  have listed: "http_Do (sampleEnv withErrors) [] (listRequest sampleClient ''page=1&per_page=250'')
      = Inr \<lparr>StatusCode = 200, Status = ''200 OK'', Response.Body = ''errors''\<rparr>"
    and posted: "http_Do (sampleEnv withErrors) []
        (clientRequest sampleClient ''POST'' Monitors (Some ''a''))
      = Inr \<lparr>StatusCode = 201, Status = ''201 Created'', Response.Body = ''errors''\<rparr>"
    and got: "http_Do (sampleEnv withErrors) []
        (clientRequest sampleClient ''GET'' (MonitorID ''11'') None)
      = Inr \<lparr>StatusCode = 200, Status = ''200 OK'', Response.Body = ''monitor 11''\<rparr>"
    and patched: "http_Do (sampleEnv withErrors) []
        (clientRequest sampleClient ''PATCH'' (MonitorID ''11'') (Some ''a''))
      = Inr \<lparr>StatusCode = 200, Status = ''200 OK'', Response.Body = ''monitor 11''\<rparr>"
    by (simp_all add: eval_simps)
  have marshal: "json_Marshal (sampleEnv withErrors) (sampleMonitor ''a'') = Inr ''a''"
    by (simp add: sampleEnv_def sampleMonitor_def)
  have decoded: "json_DecodeMonitors (sampleEnv withErrors) ''errors''
      = (fst (sampleDecodeMonitors ''errors''), None)"
    "json_DecodeMonitor (sampleEnv withErrors) ''errors''
      = (fst (sampleDecodeMonitor ''errors''), None)"
    "json_DecodeMonitor (sampleEnv withErrors) ''monitor 11''
      = (fst (sampleDecodeMonitor ''monitor 11''), None)"
    by (simp_all add: eval_simps)
  have errs: "NotEmptyAny (ListWrapper.Errors (fst (sampleDecodeMonitors ''errors'')))"
    "ListWrapper.Errors (fst (sampleDecodeMonitors ''errors'')) = AnyString ''Invalid API token''"
    "NotEmptyAny (ResponseWrapper.Errors (fst (sampleDecodeMonitor ''errors'')))"
    "ResponseWrapper.Errors (fst (sampleDecodeMonitor ''errors'')) = AnyString ''Invalid API token''"
    "\<not> NotEmptyAny (ResponseWrapper.Errors (fst (sampleDecodeMonitor ''monitor 11'')))"
    by (simp_all add: eval_simps)
  from errors_field_decides [of 1 Blanc Blanc "[(''per_page'', [''250'']), (''page'', [''1''])]"
      "sampleEnv withErrors"
      "\<lparr>Scheme = ''https'', Opaque = [], Host = ''uptime.betterstack.com'',
          Path = ''/api/v2/monitors'', RawQuery = ''page=1&per_page=250'', Fragment = []\<rparr>"
      "[]" sampleClient
      "\<lparr>StatusCode = 200, Status = ''200 OK'', Response.Body = ''errors''\<rparr>"
      "fst (sampleDecodeMonitors ''errors'')"
      "''11''"
      "\<lparr>Scheme = ''https'', Opaque = [], Host = ''uptime.betterstack.com'',
          Path = ''/api/v2/monitors/11'', RawQuery = [], Fragment = []\<rparr>"
      "\<lparr>StatusCode = 200, Status = ''200 OK'', Response.Body = ''monitor 11''\<rparr>"
      "fst (sampleDecodeMonitor ''monitor 11'')"
      "sampleMonitor ''a''" "''a''"
      "\<lparr>Scheme = ''https'', Opaque = [], Host = ''uptime.betterstack.com'',
          Path = ''/api/v2/monitors'', RawQuery = [], Fragment = []\<rparr>"
      "\<lparr>StatusCode = 201, Status = ''201 Created'', Response.Body = ''errors''\<rparr>"
      "fst (sampleDecodeMonitor ''errors'')"
      "sampleMonitor ''a''" "''a''" "''11''"
      "\<lparr>Scheme = ''https'', Opaque = [], Host = ''uptime.betterstack.com'',
          Path = ''/api/v2/monitors/11'', RawQuery = [], Fragment = []\<rparr>"
      "\<lparr>StatusCode = 200, Status = ''200 OK'', Response.Body = ''monitor 11''\<rparr>"
      "fst (sampleDecodeMonitor ''monitor 11'')"]
    params query parses parses1 parses2 listed posted got patched marshal decoded errs
  show ?thesis by (simp add: pageRequest_def itoa_def digits.simps)
qed

section \<open>An unexpected status\<close>

text \<open>
  C5. A create call answered with status 200 and a body that decodes cleanly: the
  condition \<open>monsRespErr != nil || StatusCode != http.StatusCreated\<close> holds with
  \<open>monsRespErr = nil\<close>, and \<open>CreateMonitor\<close> returns the error of its request-execution
  branch, \<open>failed to execute request: %v\<close> formatted with the nil error; a transport
  failure gives the same error with the transport's error as operand. \<open>DeleteMonitor\<close>
  does the same on a status other than 204. \<open>UpdateMonitor\<close> tests the status in a
  branch of its own and formats the response status.
\<close>

theorem create_status_mismatch:
  "sampleDecodeMonitor ''monitor 11''
      = (\<lparr>ResponseWrapper.Data = sampleEntity ''11'' ''a'', ResponseWrapper.Errors = AnyNil,
          ResponseWrapper.Pagination = zeroPagination\<rparr>, None)
   \<and> CreateMonitor (sampleEnv wrongStatus) sampleClient [] (sampleMonitor ''a'')
      = ((zeroMonitorResponse, Some (Errorf ''failed to execute request: %v'' [OpError None])),
         [clientRequest sampleClient ''POST'' Monitors (Some ''a'')])
   \<and> CreateMonitor (sampleEnv []) sampleClient [] (sampleMonitor ''a'')
      = ((zeroMonitorResponse, Some (Errorf ''failed to execute request: %v''
            [OpError (Some (LibError ''connection refused''))])),
         [clientRequest sampleClient ''POST'' Monitors (Some ''a'')])
   \<and> DeleteMonitor (sampleEnv wrongStatus) sampleClient [] ''11''
      = (Some (Errorf ''failed to execute request: %v'' [OpError None]),
         [clientRequest sampleClient ''DELETE'' (MonitorID ''11'') None])
   \<and> UpdateMonitor (sampleEnv wrongStatus) sampleClient [] ''11'' (sampleMonitor ''a'')
      = ((zeroMonitorResponse,
          Some (Errorf ''failed to execute request: %v'' [OpString ''404 Not Found''])),
         [clientRequest sampleClient ''PATCH'' (MonitorID ''11'') (Some ''a'')])"
  by (simp add: crud_simps eval_simps)

lemma ParseUint_append:
  "ParseUint n (xs @ ys) = (case ParseUint n xs of Inl e \<Rightarrow> Inl e | Inr m \<Rightarrow> ParseUint m ys)"
  by (induction xs arbitrary: n) (simp_all add: Let_def)

lemma digit_value: "n < 10 \<Longrightarrow> of_char (''0123456789'' ! n) - 48 = n"
proof -
  assume "n < 10"
  then have "n \<in> {0, 1, 2, 3, 4, 5, 6, 7, 8, 9}" by auto
  then show ?thesis by auto
qed

lemma ParseUint_digit:
  "k < 10 \<Longrightarrow> m * 10 + k < 2 ^ 64 \<Longrightarrow> ParseUint m [''0123456789'' ! k] = Inr (m * 10 + k)"
  by (simp add: digit_char digit_value Let_def)

lemma ParseUint_digits: "n < 2 ^ 64 \<Longrightarrow> ParseUint 0 (digits n) = Inr n"
proof (induction n rule: digits.induct)
  case (1 n)
  show ?case
  proof (cases "n < 10")
    case True
    with 1(2) ParseUint_digit [of n 0] show ?thesis by (subst digits.simps) simp
  next
    case False
    with 1 have "ParseUint 0 (digits (n div 10)) = Inr (n div 10)" by simp
    moreover have "ParseUint (n div 10) [''0123456789'' ! (n mod 10)] = Inr n"
      using ParseUint_digit [of "n mod 10" "n div 10"] 1(2) by simp
    ultimately show ?thesis using False
      by (subst digits.simps) (simp add: ParseUint_append)
  qed
qed

lemma digits_nonempty: "digits n \<noteq> []"
  by (subst digits.simps) simp

lemma digits_hd: "isDigit (hd (digits n))"
  using digits_isDigit [of n] digits_nonempty [of n] by (cases "digits n") auto

lemma Atoi_itoa:
  assumes "0 \<le> i" and "i \<le> MaxInt"
  shows "Atoi (itoa i) = Inr i"
proof -
  have s: "itoa i = digits (nat i)" using assms by (simp add: itoa_def)
  have "nat i < 2 ^ 63" using assms by (simp add: MaxInt_def)
  then have small: "nat i < 2 ^ 64" by simp
  have sign: "hd (digits (nat i)) \<noteq> CHR ''+''" "hd (digits (nat i)) \<noteq> CHR ''-''"
    using digits_hd [of "nat i"] by (auto simp: isDigit_def)
  show ?thesis
    using assms \<open>nat i < 2 ^ 63\<close>
    by (simp add: Atoi_def ParseInt_def s digits_nonempty sign ParseUint_digits [OF small])
qed

lemma Split_none: "sep \<notin> set s \<Longrightarrow> Split s sep = [s]"
  by (induction s) auto

lemma QueryUnescape_plain:
  "\<forall>c \<in> set s. c \<noteq> CHR ''%'' \<and> c \<noteq> CHR ''+'' \<Longrightarrow> QueryUnescape s = Inr s"
  by (induction s) auto

lemma isDigit_plain:
  "isDigit c \<Longrightarrow> c \<noteq> CHR ''%'' \<and> c \<noteq> CHR ''+'' \<and> c \<noteq> CHR ''&'' \<and> c \<noteq> CHR '';''
     \<and> c \<noteq> CHR ''=''"
  by (auto simp: isDigit_def)

lemma Get_page_number:
  assumes "0 \<le> i"
  shows "Get (ParseQuery (''page='' @ itoa i)) ''page'' = itoa i"
proof -
  have s: "itoa i = digits (nat i)" using assms by (simp add: itoa_def)
  have d: "\<forall>c \<in> set (digits (nat i)). c \<noteq> CHR ''%'' \<and> c \<noteq> CHR ''+'' \<and> c \<noteq> CHR ''&''
      \<and> c \<noteq> CHR '';'' \<and> c \<noteq> CHR ''=''"
    using digits_isDigit [of "nat i"] isDigit_plain by blast
  then have "CHR ''&'' \<notin> set (''page='' @ digits (nat i))" by auto
  then have pieces: "Split (''page='' @ digits (nat i)) CHR ''&'' = [''page='' @ digits (nat i)]"
    by (rule Split_none)
  have unesc: "QueryUnescape (digits (nat i)) = Inr (digits (nat i))"
    using d by (intro QueryUnescape_plain) blast
  have semi: "CHR '';'' \<notin> set (digits (nat i))" using d by blast
  show ?thesis
    using pieces semi
    by (simp add: s ParseQuery_def parsePair_def Cut_def unesc del: Split.simps)
qed

section \<open>The page count\<close>

text \<open>
  C4. For a \<open>last\<close> link that parses, \<open>GetLastPage\<close> returns the integer value of its
  \<open>page\<close> query parameter: the value \<open>Atoi\<close> gives, \<open>i\<close> for a query \<open>page=i\<close> with \<open>i\<close> a
  non-negative \<open>int\<close>, and 7 for a link ending in \<open>?page=7\<close>. A link without a \<open>page\<close>
  parameter, and a link whose \<open>page\<close> value is not an integer, give a failure and the
  count 0.
\<close>

theorem GetLastPage_page_parameter:
  "(url_Parse env (Last p) = Inr u \<and> Atoi (Get (Query u) ''page'') = Inr n \<longrightarrow>
      GetLastPage env p = (n, None))
   \<and> (0 \<le> i \<and> i \<le> MaxInt \<and> url_Parse env (Last p') = Inr u'
        \<and> RawQuery u' = ''page='' @ itoa i \<longrightarrow>
      GetLastPage env p' = (i, None))
   \<and> (url_Parse env (link @ ''?page=7'') = Inr u7 \<and> RawQuery u7 = ''page=7'' \<longrightarrow>
      GetLastPage env (pg\<lparr>Last := link @ ''?page=7''\<rparr>) = (7, None))
   \<and> (url_Parse env (Last q) = Inr v \<and> Get (Query v) ''page'' = [] \<longrightarrow>
      GetLastPage env q = (0, Some (Errorf '''page' parameter not found in URL'' [])))
   \<and> (url_Parse env (Last q') = Inr v' \<and> Get (Query v') ''page'' \<noteq> []
        \<and> Atoi (Get (Query v') ''page'') = Inl e \<longrightarrow>
      GetLastPage env q' = (0, Some (Errorf ''invalid 'page' value: %v'' [OpError (Some e)])))"
proof (intro conjI impI)
  assume a: "url_Parse env (Last p) = Inr u \<and> Atoi (Get (Query u) ''page'') = Inr n"
  then have "Get (Query u) ''page'' \<noteq> []"
    by (auto simp: Atoi_def ParseInt_def)
  with a show "GetLastPage env p = (n, None)"
    by (simp add: GetLastPage_def IsEmpty_def)
next
  assume a: "0 \<le> i \<and> i \<le> MaxInt \<and> url_Parse env (Last p') = Inr u'
    \<and> RawQuery u' = ''page='' @ itoa i"
  then have "Get (Query u') ''page'' = itoa i"
    using Get_page_number [of i] by (simp add: Query_def)
  moreover have "itoa i \<noteq> []" using a by (simp add: itoa_def digits_nonempty)
  ultimately show "GetLastPage env p' = (i, None)"
    using a by (simp add: GetLastPage_def IsEmpty_def Atoi_itoa)
next
  assume a: "url_Parse env (link @ ''?page=7'') = Inr u7 \<and> RawQuery u7 = ''page=7''"
  then show "GetLastPage env (pg\<lparr>Last := link @ ''?page=7''\<rparr>) = (7, None)"
    by (simp add: page_simps Cut_def IsEmpty_def isDigit_def)
next
  assume "url_Parse env (Last q) = Inr v \<and> Get (Query v) ''page'' = []"
  then show "GetLastPage env q = (0, Some (Errorf '''page' parameter not found in URL'' []))"
    by (simp add: GetLastPage_def IsEmpty_def)
next
  assume "url_Parse env (Last q') = Inr v' \<and> Get (Query v') ''page'' \<noteq> []
    \<and> Atoi (Get (Query v') ''page'') = Inl e"
  then show "GetLastPage env q'
      = (0, Some (Errorf ''invalid 'page' value: %v'' [OpError (Some e)]))"
    by (simp add: GetLastPage_def IsEmpty_def)
qed

theorem GetLastPage_page_parameter_witness:
  "GetLastPage (sampleEnv []) (sampleLinks (Monitors @ ''?page=7'')) = (7, None)
   \<and> GetLastPage (sampleEnv []) (sampleLinks (Monitors @ ''?page=12'')) = (12, None)
   \<and> GetLastPage (sampleEnv []) (sampleLinks (Monitors @ ''?per_page=250''))
       = (0, Some (Errorf '''page' parameter not found in URL'' []))
   \<and> GetLastPage (sampleEnv []) (sampleLinks (Monitors @ ''?page=last''))
       = (0, Some (Errorf ''invalid 'page' value: %v'' [OpError (Some (ErrSyntax ''last''))]))"
proof -
  let ?u = "\<lambda>q. \<lparr>Scheme = ''https'', Opaque = [], Host = ''uptime.betterstack.com'',
    Path = ''/api/v2/monitors'', RawQuery = q, Fragment = []\<rparr>"
  have parse7: "url_Parse (sampleEnv []) (Last (sampleLinks (Monitors @ ''?page=7''))) = Inr (?u ''page=7'')"
    and parse7': "url_Parse (sampleEnv []) (Monitors @ ''?page=7'') = Inr (?u ''page=7'')"
    and parse12: "url_Parse (sampleEnv []) (Last (sampleLinks (Monitors @ ''?page=12'')))
      = Inr (?u ''page=12'')"
    and parse0: "url_Parse (sampleEnv []) (Last (sampleLinks (Monitors @ ''?per_page=250'')))
      = Inr (?u ''per_page=250'')"
    and parseL: "url_Parse (sampleEnv []) (Last (sampleLinks (Monitors @ ''?page=last'')))
      = Inr (?u ''page=last'')"
    by (simp_all add: sampleEnv_def sampleLinks_def url_simps)
  have get7: "Atoi (Get (Query (?u ''page=7'')) ''page'') = Inr 7"
    and get0: "Get (Query (?u ''per_page=250'')) ''page'' = []"
    and getL: "Get (Query (?u ''page=last'')) ''page'' \<noteq> []"
      "Atoi (Get (Query (?u ''page=last'')) ''page'') = Inl (ErrSyntax ''last'')"
    by (simp_all add: page_simps Cut_def isDigit_def)
  have twelve: "(0::int) \<le> 12" "12 \<le> MaxInt" "''page='' @ itoa 12 = ''page=12''"
    by (simp_all add: MaxInt_def itoa_def digits.simps)
  have upd: "(sampleLinks (Monitors @ ''?page=7''))\<lparr>Last := Monitors @ ''?page=7''\<rparr>
      = sampleLinks (Monitors @ ''?page=7'')"
    by (simp add: sampleLinks_def)
  from GetLastPage_page_parameter [of "sampleEnv []" "sampleLinks (Monitors @ ''?page=7'')"
      "?u ''page=7''" 7 12 "sampleLinks (Monitors @ ''?page=12'')" "?u ''page=12''"
      Monitors "?u ''page=7''" "sampleLinks (Monitors @ ''?page=7'')"
      "sampleLinks (Monitors @ ''?per_page=250'')" "?u ''per_page=250''"
      "sampleLinks (Monitors @ ''?page=last'')" "?u ''page=last''" "ErrSyntax ''last''"]
    parse7 parse7' parse12 parse0 parseL get7 get0 getL twelve upd
  show ?thesis by simp
qed

section \<open>An empty last link\<close>

text \<open>
  C2, as the code has it. \<open>url.Parse\<close> accepts the empty string and the URL it returns has
  no query. For a pagination whose \<open>last\<close> link is empty \<open>GetLastPage\<close> therefore returns
  the count 0 with the failure \<open>'page' parameter not found in URL\<close>; and when the
  response to page 1 has an empty \<open>last\<close> link, \<open>ListAllMonitors\<close> returns that failure with
  an empty result, after the one request for page 1.
\<close>

theorem empty_last_link:
  "(url_Parse env [] = Inr u \<and> RawQuery u = [] \<and> Last p = [] \<longrightarrow>
      GetLastPage env p = (0, Some (Errorf '''page' parameter not found in URL'' [])))
   \<and> (ListMonitors env c h 1 Blanc Blanc = ((r, None), h1)
        \<and> Last (ListWrapper.Pagination r) = []
        \<and> url_Parse env [] = Inr u \<and> RawQuery u = [] \<longrightarrow>
      ListAllMonitors env c h
        = Some (([], Some (Errorf '''page' parameter not found in URL'' [])), h1)
      \<and> h1 = h @ [pageRequest c 1])"
proof (intro conjI impI)
  assume "url_Parse env [] = Inr u \<and> RawQuery u = [] \<and> Last p = []"
  then show "GetLastPage env p = (0, Some (Errorf '''page' parameter not found in URL'' []))"
    by (simp add: page_simps IsEmpty_def)
next
  assume a: "ListMonitors env c h 1 Blanc Blanc = ((r, None), h1)
        \<and> Last (ListWrapper.Pagination r) = []
        \<and> url_Parse env [] = Inr u \<and> RawQuery u = []"
  then have "GetLastPage env (ListWrapper.Pagination r)
      = (0, Some (Errorf '''page' parameter not found in URL'' []))"
    by (simp add: page_simps IsEmpty_def)
  with a show "ListAllMonitors env c h
      = Some (([], Some (Errorf '''page' parameter not found in URL'' [])), h1)"
    by (simp add: ListAllMonitors_def)
next
  assume a: "ListMonitors env c h 1 Blanc Blanc = ((r, None), h1)
        \<and> Last (ListWrapper.Pagination r) = []
        \<and> url_Parse env [] = Inr u \<and> RawQuery u = []"
  then show "h1 = h @ [pageRequest c 1]"
    using ListMonitors_blank_log [of env c h 1 r h1] by (simp add: clampPage_def)
qed

lemma noLastLink_1:
  "ListMonitors (sampleEnv noLastLink) sampleClient h 1 Blanc Blanc
     = ((fst (sampleDecodeMonitors ''page without last link''), None),
        h @ [pageRequest sampleClient 1])"
  by (simp add: eval_simps)

lemma noLastLink_page:
  "fst (sampleDecodeMonitors ''page without last link'')
     = \<lparr>ListWrapper.Data = [sampleEntity ''11'' ''a'', sampleEntity ''12'' ''b''],
         ListWrapper.Errors = AnyNil, ListWrapper.Pagination = sampleLinks []\<rparr>"
  by (simp add: sampleDecodeMonitors_def)

lemma parse_empty:
  "url_Parse (sampleEnv table) []
     = Inr \<lparr>Scheme = [], Opaque = [], Host = [], Path = [], RawQuery = [], Fragment = []\<rparr>"
  by (simp add: sampleEnv_def url_simps)

theorem empty_last_link_witness:
  "GetLastPage (sampleEnv noLastLink) (sampleLinks [])
     = (0, Some (Errorf '''page' parameter not found in URL'' []))
   \<and> ListMonitors (sampleEnv noLastLink) sampleClient [] 1 Blanc Blanc
     = ((\<lparr>ListWrapper.Data = [sampleEntity ''11'' ''a'', sampleEntity ''12'' ''b''],
           ListWrapper.Errors = AnyNil, ListWrapper.Pagination = sampleLinks []\<rparr>, None),
        [pageRequest sampleClient 1])
   \<and> ListAllMonitors (sampleEnv noLastLink) sampleClient []
     = Some (([], Some (Errorf '''page' parameter not found in URL'' [])),
         [pageRequest sampleClient 1])"
proof -
  have run: "ListMonitors (sampleEnv noLastLink) sampleClient [] 1 Blanc Blanc
     = ((\<lparr>ListWrapper.Data = [sampleEntity ''11'' ''a'', sampleEntity ''12'' ''b''],
           ListWrapper.Errors = AnyNil, ListWrapper.Pagination = sampleLinks []\<rparr>, None),
        [pageRequest sampleClient 1])"
    using noLastLink_1 [of "[]"] by (simp add: noLastLink_page)
  have link: "Last (sampleLinks []) = []" by (simp add: sampleLinks_def)
  from empty_last_link [of "sampleEnv noLastLink"
      "\<lparr>Scheme = [], Opaque = [], Host = [], Path = [], RawQuery = [], Fragment = []\<rparr>"
      "sampleLinks []" sampleClient "[]"
      "\<lparr>ListWrapper.Data = [sampleEntity ''11'' ''a'', sampleEntity ''12'' ''b''],
           ListWrapper.Errors = AnyNil, ListWrapper.Pagination = sampleLinks []\<rparr>"
      "[pageRequest sampleClient 1]"]
    run link parse_empty [of noLastLink]
  show ?thesis by simp
qed

theorem empty_last_link_counterexample:
  "GetLastPage (sampleEnv noLastLink) (sampleLinks [])
     = (0, Some (Errorf '''page' parameter not found in URL'' []))
   \<and> ListWrapper.Pagination (fst (sampleDecodeMonitors ''page without last link''))
     = sampleLinks []
   \<and> ListWrapper.Data (fst (sampleDecodeMonitors ''page without last link''))
     = [sampleEntity ''11'' ''a'', sampleEntity ''12'' ''b'']
   \<and> ListMonitors (sampleEnv noLastLink) sampleClient [] 1 Blanc Blanc
     = ((fst (sampleDecodeMonitors ''page without last link''), None),
        [pageRequest sampleClient 1])
   \<and> ListAllMonitors (sampleEnv noLastLink) sampleClient []
     = Some (([], Some (Errorf '''page' parameter not found in URL'' [])),
         [pageRequest sampleClient 1])"
proof -
  have last: "GetLastPage (sampleEnv noLastLink) (sampleLinks [])
     = (0, Some (Errorf '''page' parameter not found in URL'' []))"
    by (simp add: page_simps parse_empty IsEmpty_def)
  then have "ListAllMonitors (sampleEnv noLastLink) sampleClient []
     = Some (([], Some (Errorf '''page' parameter not found in URL'' [])),
         [pageRequest sampleClient 1])"
    using noLastLink_1 [of "[]"] by (simp add: ListAllMonitors_def noLastLink_page)
  with last noLastLink_1 [of "[]"] show ?thesis by (simp add: noLastLink_page)
qed

section \<open>The filter\<close>

text \<open>
  C6, as the code has it. For a list call with a non-empty filter value: with the kind
  \<open>url\<close> the parameters hold \<open>url\<close> = the value and no \<open>pronounceable_name\<close>, with the kind
  \<open>pronounceable_name\<close> they hold \<open>pronounceable_name\<close> = the value and no \<open>url\<close>, and the
  request, issued unless it cannot be created, carries the query string
  \<open>page=\<dots>&per_page=250&<kind>=<escaped value>\<close>; with any other non-empty kind
  \<open>ListMonitors\<close> returns the failure \<open>invalid filter type\<close> and issues no request.
\<close>

theorem list_filter_kinds:
  assumes "filterValue \<noteq> []"
  shows "(\<exists>params. listParams page ''url'' filterValue = Inr params
            \<and> lookup params ''url'' = [filterValue] \<and> \<not> Has params ''pronounceable_name''
            \<and> Encode params = ''page='' @ itoa (if page < 1 then 1 else page)
                 @ ''&per_page=250&url='' @ QueryEscape filterValue
            \<and> snd (ListMonitors env c h page ''url'' filterValue)
                 = (case url_Parse env (Monitors @ ''?'' @ Encode params) of
                      Inl e \<Rightarrow> h
                    | Inr u \<Rightarrow> h @ [listRequest c (Encode params)]))
       \<and> (\<exists>params. listParams page ''pronounceable_name'' filterValue = Inr params
            \<and> lookup params ''pronounceable_name'' = [filterValue] \<and> \<not> Has params ''url''
            \<and> Encode params = ''page='' @ itoa (if page < 1 then 1 else page)
                 @ ''&per_page=250&pronounceable_name='' @ QueryEscape filterValue
            \<and> snd (ListMonitors env c h page ''pronounceable_name'' filterValue)
                 = (case url_Parse env (Monitors @ ''?'' @ Encode params) of
                      Inl e \<Rightarrow> h
                    | Inr u \<Rightarrow> h @ [listRequest c (Encode params)]))
       \<and> (filterType \<noteq> [] \<and> filterType \<noteq> ''url'' \<and> filterType \<noteq> ''pronounceable_name'' \<longrightarrow>
            ListMonitors env c h page filterType filterValue
              = ((zeroMonitorsResponse,
                  Some (Errorf ''invalid filter type: %s'' [OpString filterType])), h))"
proof (intro conjI impI)
  let ?params = "[(''per_page'', [''250'']), (''page'', [itoa (clampPage page)]),
    (''url'', [filterValue])]"
  have p: "listParams page ''url'' filterValue = Inr ?params"
    using assms by (simp add: listParams_url)
  moreover have "snd (ListMonitors env c h page ''url'' filterValue)
      = (case url_Parse env (Monitors @ ''?'' @ Encode ?params) of
           Inl e \<Rightarrow> h
         | Inr u \<Rightarrow> h @ [listRequest c (Encode ?params)])"
    by (simp add: ListMonitors_log p)
  ultimately show "\<exists>params. listParams page ''url'' filterValue = Inr params
            \<and> lookup params ''url'' = [filterValue] \<and> \<not> Has params ''pronounceable_name''
            \<and> Encode params = ''page='' @ itoa (if page < 1 then 1 else page)
                 @ ''&per_page=250&url='' @ QueryEscape filterValue
            \<and> snd (ListMonitors env c h page ''url'' filterValue)
                 = (case url_Parse env (Monitors @ ''?'' @ Encode params) of
                      Inl e \<Rightarrow> h
                    | Inr u \<Rightarrow> h @ [listRequest c (Encode params)])"
    using Encode_list3_url [of page filterValue]
    by (intro exI [of _ ?params]) (simp add: Has_def clampPage_def)
next
  let ?params = "[(''per_page'', [''250'']), (''page'', [itoa (clampPage page)]),
    (''pronounceable_name'', [filterValue])]"
  have p: "listParams page ''pronounceable_name'' filterValue = Inr ?params"
    using assms by (simp add: listParams_name)
  moreover have "snd (ListMonitors env c h page ''pronounceable_name'' filterValue)
      = (case url_Parse env (Monitors @ ''?'' @ Encode ?params) of
           Inl e \<Rightarrow> h
         | Inr u \<Rightarrow> h @ [listRequest c (Encode ?params)])"
    by (simp add: ListMonitors_log p)
  ultimately show "\<exists>params. listParams page ''pronounceable_name'' filterValue = Inr params
            \<and> lookup params ''pronounceable_name'' = [filterValue] \<and> \<not> Has params ''url''
            \<and> Encode params = ''page='' @ itoa (if page < 1 then 1 else page)
                 @ ''&per_page=250&pronounceable_name='' @ QueryEscape filterValue
            \<and> snd (ListMonitors env c h page ''pronounceable_name'' filterValue)
                 = (case url_Parse env (Monitors @ ''?'' @ Encode params) of
                      Inl e \<Rightarrow> h
                    | Inr u \<Rightarrow> h @ [listRequest c (Encode params)])"
    using Encode_list3_name [of page filterValue]
    by (intro exI [of _ ?params]) (simp add: Has_def clampPage_def)
next
  assume "filterType \<noteq> [] \<and> filterType \<noteq> ''url'' \<and> filterType \<noteq> ''pronounceable_name''"
  with assms show "ListMonitors env c h page filterType filterValue
      = ((zeroMonitorsResponse, Some (Errorf ''invalid filter type: %s'' [OpString filterType])), h)"
    by (simp add: ListMonitors_invalid_filter listParams_invalid)
qed

lemma refused_url:
  "ListMonitors (sampleEnv threePages) sampleClient [] 1 ''url'' ''a b''
     = ((zeroMonitorsResponse, Some (Errorf ''failed to execute request: %v''
          [OpError (Some (LibError ''connection refused''))])),
        [listRequest sampleClient ''page=1&per_page=250&url=a+b''])"
  by (simp add: eval_simps)

lemma found_by_name:
  "ListMonitors (sampleEnv oneMonitor) sampleClient [] 1 ''pronounceable_name'' ''e''
     = ((fst (sampleDecodeMonitors ''monitors named e''), None),
        [listRequest sampleClient ''page=1&per_page=250&pronounceable_name=e''])"
  by (simp add: eval_simps)

theorem list_filter_kinds_witness:
  "''e'' \<noteq> []
   \<and> listParams 1 ''url'' ''e''
       = Inr [(''per_page'', [''250'']), (''page'', [''1'']), (''url'', [''e''])]
   \<and> listParams 1 ''pronounceable_name'' ''e''
       = Inr [(''per_page'', [''250'']), (''page'', [''1'']), (''pronounceable_name'', [''e''])]
   \<and> snd (ListMonitors (sampleEnv oneMonitor) sampleClient [] 1 ''url'' ''e'')
       = [listRequest sampleClient ''page=1&per_page=250&url=e'']
   \<and> snd (ListMonitors (sampleEnv oneMonitor) sampleClient [] 1 ''pronounceable_name'' ''e'')
       = [listRequest sampleClient ''page=1&per_page=250&pronounceable_name=e'']
   \<and> ListMonitors (sampleEnv oneMonitor) sampleClient [] 1 ''status'' ''e''
       = ((zeroMonitorsResponse, Some (Errorf ''invalid filter type: %s'' [OpString ''status''])),
          [])"
proof -
  have v: "''e'' \<noteq> []" by simp
  have p1: "listParams 1 ''url'' ''e''
       = Inr [(''per_page'', [''250'']), (''page'', [''1'']), (''url'', [''e''])]"
    and p2: "listParams 1 ''pronounceable_name'' ''e''
       = Inr [(''per_page'', [''250'']), (''page'', [''1'']), (''pronounceable_name'', [''e''])]"
    by (simp_all add: eval_simps)
  have e1: "Encode [(''per_page'', [''250'']), (''page'', [''1'']), (''url'', [''e''])]
      = ''page=1&per_page=250&url=e''"
    and e2: "Encode [(''per_page'', [''250'']), (''page'', [''1'']),
        (''pronounceable_name'', [''e''])] = ''page=1&per_page=250&pronounceable_name=e''"
    by (simp_all add: eval_simps)
  have u1: "url_Parse (sampleEnv oneMonitor) (Monitors @ ''?'' @ ''page=1&per_page=250&url=e'')
      = Inr \<lparr>Scheme = ''https'', Opaque = [], Host = ''uptime.betterstack.com'',
          Path = ''/api/v2/monitors'', RawQuery = ''page=1&per_page=250&url=e'', Fragment = []\<rparr>"
    and u2: "url_Parse (sampleEnv oneMonitor)
        (Monitors @ ''?'' @ ''page=1&per_page=250&pronounceable_name=e'')
      = Inr \<lparr>Scheme = ''https'', Opaque = [], Host = ''uptime.betterstack.com'',
          Path = ''/api/v2/monitors'', RawQuery = ''page=1&per_page=250&pronounceable_name=e'',
          Fragment = []\<rparr>"
    by (simp_all add: eval_simps)
  from list_filter_kinds [OF v, of 1 "sampleEnv oneMonitor" sampleClient "[]" "''status''"]
    p1 p2 e1 e2 u1 u2
  show ?thesis by simp
qed

theorem list_filter_kinds_counterexample:
  "ListMonitors (sampleEnv threePages) sampleClient [] 1 ''status'' []
     = ((fst (sampleDecodeMonitors ''page 1 of 3''), None), [pageRequest sampleClient 1])
   \<and> listParams 1 ''url'' [] = Inr [(''per_page'', [''250'']), (''page'', [''1''])]
   \<and> ListMonitors (sampleEnv threePages) sampleClient [] 1 ''url'' []
     = ((fst (sampleDecodeMonitors ''page 1 of 3''), None),
        [listRequest sampleClient ''page=1&per_page=250''])
   \<and> ListMonitors (sampleEnv threePages) sampleClient [] 1 [] ''e''
     = ((fst (sampleDecodeMonitors ''page 1 of 3''), None), [pageRequest sampleClient 1])"
  by (simp add: eval_simps)

text \<open>
  C10. When exactly one of filter kind and filter value is empty, the parameters are
  \<open>per_page\<close> and \<open>page\<close> alone, \<open>ListMonitors\<close> returns what the call without a filter
  returns, never the failure \<open>invalid filter type\<close>, and the request, issued unless it
  cannot be created, is the request for the page without a filter.
\<close>

theorem filter_dropped:
  assumes "(filterType = []) \<noteq> (filterValue = [])"
  shows "listParams page filterType filterValue
      = Inr [(''per_page'', [''250'']), (''page'', [itoa (if page < 1 then 1 else page)])]
    \<and> ListMonitors env c h page filterType filterValue = ListMonitors env c h page Blanc Blanc
    \<and> snd (fst (ListMonitors env c h page filterType filterValue))
         \<noteq> Some (Errorf ''invalid filter type: %s'' [OpString filterType])
    \<and> snd (ListMonitors env c h page filterType filterValue)
         = (case url_Parse env (Monitors @ ''?page='' @ itoa (if page < 1 then 1 else page)
                @ ''&per_page=250'') of
              Inl e \<Rightarrow> h
            | Inr u \<Rightarrow> h @ [pageRequest c (if page < 1 then 1 else page)])"
proof -
  have blank: "filterType = [] \<or> filterValue = []" using assms by blast
  have p: "listParams page filterType filterValue
      = Inr [(''per_page'', [''250'']), (''page'', [itoa (clampPage page)])]"
    using blank by (rule listParams_blank)
  have p0: "listParams page Blanc Blanc
      = Inr [(''per_page'', [''250'']), (''page'', [itoa (clampPage page)])]"
    by (simp add: listParams_blank Blanc_def)
  have same: "ListMonitors env c h page filterType filterValue = ListMonitors env c h page Blanc Blanc"
    by (simp add: ListMonitors_def p p0)
  have log: "snd (ListMonitors env c h page filterType filterValue)
         = (case url_Parse env (Monitors @ ''?page='' @ itoa (clampPage page) @ ''&per_page=250'') of
              Inl e \<Rightarrow> h
            | Inr u \<Rightarrow> h @ [pageRequest c (clampPage page)])"
    by (simp add: ListMonitors_log p Encode_list2 pageRequest_def split: sum.splits)
  have noerr: "snd (fst (ListMonitors env c h page filterType filterValue))
         \<noteq> Some (Errorf ''invalid filter type: %s'' [OpString filterType])"
    by (simp add: ListMonitors_def p NewRequest_def Let_def
        split: sum.splits option.splits prod.splits)
  from p same log noerr show ?thesis unfolding clampPage_def by simp
qed

theorem filter_dropped_witness:
  "(''status'' = []) \<noteq> (([]::string) = [])
   \<and> (([]::string) = []) \<noteq> (''e'' = [])
   \<and> listParams 1 ''status'' [] = Inr [(''per_page'', [''250'']), (''page'', [''1''])]
   \<and> listParams 1 [] ''e'' = Inr [(''per_page'', [''250'']), (''page'', [''1''])]
   \<and> ListMonitors (sampleEnv threePages) sampleClient [] 1 ''status'' []
       = ListMonitors (sampleEnv threePages) sampleClient [] 1 Blanc Blanc
   \<and> ListMonitors (sampleEnv threePages) sampleClient [] 1 [] ''e''
       = ListMonitors (sampleEnv threePages) sampleClient [] 1 Blanc Blanc
   \<and> snd (ListMonitors (sampleEnv threePages) sampleClient [] 1 ''status'' [])
       = [pageRequest sampleClient 1]
   \<and> snd (ListMonitors (sampleEnv threePages) sampleClient [] 1 [] ''e'')
       = [pageRequest sampleClient 1]"
proof -
  have kinds: "(''status'' = []) \<noteq> (([]::string) = [])" "(([]::string) = []) \<noteq> (''e'' = [])"
    by simp_all
  have u: "url_Parse (sampleEnv threePages) (Monitors @ ''?page='' @ ''1'' @ ''&per_page=250'')
      = Inr \<lparr>Scheme = ''https'', Opaque = [], Host = ''uptime.betterstack.com'',
          Path = ''/api/v2/monitors'', RawQuery = ''page=1&per_page=250'', Fragment = []\<rparr>"
    by (simp add: eval_simps)
  have blank: "ListMonitors (sampleEnv threePages) sampleClient [] 1 Blanc Blanc
      = ((fst (sampleDecodeMonitors ''page 1 of 3''), None), [pageRequest sampleClient 1])"
    using threePages_1 [of "[]" "[]"] by simp
  from filter_dropped [OF kinds(1), of 1 "sampleEnv threePages" sampleClient "[]"]
    filter_dropped [OF kinds(2), of 1 "sampleEnv threePages" sampleClient "[]"] u blank
  show ?thesis by (simp add: itoa_def digits.simps)
qed

end
